theory Spec2Isabelle
  imports Main "HOL-Library.Multiset"
begin

section \<open>The weekly update-label action: data\<close>

text \<open>
  The embedding follows \<^verbatim>\<open>github-actions/add-update-label-weekly/add-label.js\<close>.

  A timeline event is the object the issues API returns. Only the properties the script
  reads are kept. A property chain that the script dereferences (\<^verbatim>\<open>actor.login\<close>,
  \<^verbatim>\<open>assignee.login\<close>, \<^verbatim>\<open>source.issue.body\<close>) is \<open>None\<close> when an object on
  the way is null or undefined, so that reading it throws a TypeError in JavaScript; the
  model returns that error as a value. The two date properties are \<open>None\<close> when they
  are null or undefined, and hold the string otherwise. The body of the referencing issue
  may itself be null (\<open>Some None\<close>).
\<close>

datatype error = TypeError

record timeline_event =
  event :: string
  actor :: "string option"
  assignee :: "string option"
  source :: "string option option"
  updated_at :: "string option"
  created_at :: "string option"

text \<open>The object \<^verbatim>\<open>{result: ..., labels: ...}\<close> returned by \<^verbatim>\<open>isTimelineOutdated\<close>.\<close>

record response =
  result :: bool
  labels :: string

definition statusUpdatedLabel :: string where
  "statusUpdatedLabel = ''Status: Updated''"

definition toUpdateLabel :: string where
  "toUpdateLabel = ''To Update !''"

definition inactiveLabel :: string where
  "inactiveLabel = ''2 weeks inactive''"

definition commentByDays :: int where
  "commentByDays = 7"

definition inactiveUpdatedByDays :: int where
  "inactiveUpdatedByDays = 14"

text \<open>
  Times are milliseconds since the epoch, as \<^verbatim>\<open>Date.prototype.valueOf\<close> gives them.
  The cutoffs are computed once, when the module is loaded, by
  \<^verbatim>\<open>d = new Date(); d.setDate(d.getDate() - days)\<close>. \<^verbatim>\<open>setDate\<close> works on the local
  calendar; on a clock whose offset to UTC does not change in between (the runners' clock is
  UTC) this is \<open>days\<close> times 24 hours before the reading \<open>now\<close>. The functions below
  take the two cutoffs as parameters, as the script takes them from its global variables.
\<close>

definition msPerDay :: int where
  "msPerDay = 86400000"

definition cutoffTime :: "int \<Rightarrow> int \<Rightarrow> int" where
  "cutoffTime now days = now - days * msPerDay"

section \<open>Helper functions\<close>

text \<open>
  JavaScript truthiness of a value that is a string, null or undefined: only a non-empty
  string is truthy. \<open>jsOr a b\<close> is \<^verbatim>\<open>a || b\<close>.
\<close>

fun truthy :: "string option \<Rightarrow> bool" where
  "truthy None = False"
| "truthy (Some s) = (s \<noteq> [])"

definition jsOr :: "string option \<Rightarrow> string option \<Rightarrow> string option" where
  "jsOr a b = (if truthy a then a else b)"

text \<open>
  \<^verbatim>\<open>isMomentRecent(dateString, cutoffTime)\<close>. The built-in \<^verbatim>\<open>new Date(dateString)\<close> is
  the parameter \<open>parseDate\<close>: it gives the time value of the string, or \<open>None\<close> for an
  Invalid Date, whose time value is NaN. Every comparison with NaN is false, so the
  function answers false for a string that does not parse.
\<close>

definition isMomentRecent :: "(string \<Rightarrow> int option) \<Rightarrow> string \<Rightarrow> int \<Rightarrow> bool" where
  "isMomentRecent parseDate dateString cutoff =
     (case parseDate dateString of
        None \<Rightarrow> False
      | Some dateStringObj \<Rightarrow> (if dateStringObj \<ge> cutoff then True else False))"

text \<open>
  \<^verbatim>\<open>isLinkedIssue(data, issueNum)\<close>. The module \<^verbatim>\<open>../utils/find-linked-issue\<close> is the
  parameter \<open>findLinkedIssue\<close>: given the body it throws, or returns the issue number it
  found as a string (\<open>Some\<close>), or a value that is not a string (\<open>None\<close>, the
  \<^verbatim>\<open>false\<close> of no match). Issue numbers are strings, as \<^verbatim>\<open>main\<close> takes them from the
  card's URL, and \<^verbatim>\<open>==\<close> on two strings compares them as strings. A non-string result is
  taken to differ from every issue number (in JavaScript \<^verbatim>\<open>false == issueNum\<close> holds only
  for a string that converts to the number zero, which is no issue's number).
\<close>

definition isLinkedIssue ::
  "(string option \<Rightarrow> error + string option) \<Rightarrow> timeline_event \<Rightarrow> string \<Rightarrow> error + bool" where
  "isLinkedIssue findLinkedIssue data issueNum =
     (case source data of
        None \<Rightarrow> Inl TypeError
      | Some body \<Rightarrow>
          (case findLinkedIssue body of
             Inl err \<Rightarrow> Inl err
           | Inr found \<Rightarrow> Inr (found = Some issueNum)))"

definition isCommentByAssignees :: "timeline_event \<Rightarrow> string list \<Rightarrow> error + bool" where
  "isCommentByAssignees data assignees =
     (case actor data of
        None \<Rightarrow> Inl TypeError
      | Some login \<Rightarrow> Inr (login \<in> set assignees))"

section \<open>isTimelineOutdated\<close>

text \<open>
  One pass of the loop body either throws, returns from the function, or goes on with the
  two variables \<^verbatim>\<open>lastAssignedTimestamp\<close> and \<^verbatim>\<open>lastCommentTimestamp\<close>.
\<close>

datatype flow =
  Throws error
| Returns response
| Continues "string option" "string option"

text \<open>
  The condition of the first \<^verbatim>\<open>if\<close> in the loop, with the short-circuit order of
  \<^verbatim>\<open>&&\<close>: the event type, then \<^verbatim>\<open>isLinkedIssue\<close>, then the actor's login.
\<close>

definition crossReferencedByAssignee ::
  "(string option \<Rightarrow> error + string option) \<Rightarrow> timeline_event \<Rightarrow> string \<Rightarrow> string list
     \<Rightarrow> error + bool" where
  "crossReferencedByAssignee findLinkedIssue eventObj issueNum assignees =
     (if event eventObj = ''cross-referenced'' then
        (case isLinkedIssue findLinkedIssue eventObj issueNum of
           Inl err \<Rightarrow> Inl err
         | Inr linked \<Rightarrow>
             (if linked then
                (case actor eventObj of
                   None \<Rightarrow> Inl TypeError
                 | Some login \<Rightarrow> Inr (login \<in> set assignees))
              else Inr False))
      else Inr False)"

text \<open>
  The \<^verbatim>\<open>else if\<close> for an assignment. It is reached when the event is not a comment of
  an assignee.
\<close>

definition assignedBranch ::
  "timeline_event \<Rightarrow> string list \<Rightarrow> string option \<Rightarrow> string option \<Rightarrow> string option \<Rightarrow> flow" where
  "assignedBranch eventObj assignees eventTimestamp lastAssignedTimestamp lastCommentTimestamp =
     (if event eventObj = ''assigned'' then
        (case assignee eventObj of
           None \<Rightarrow> Throws TypeError
         | Some login \<Rightarrow>
             (if login \<in> set assignees then
                (if \<not> truthy lastAssignedTimestamp
                 then Continues eventTimestamp lastCommentTimestamp
                 else Continues lastAssignedTimestamp lastCommentTimestamp)
              else Continues lastAssignedTimestamp lastCommentTimestamp))
      else Continues lastAssignedTimestamp lastCommentTimestamp)"

text \<open>
  The loop body at one index. \<open>isFirst\<close> is the test \<^verbatim>\<open>i === 0\<close>; the log line there
  reads \<^verbatim>\<open>eventObj.actor.login\<close> whatever the event is.
\<close>

definition loopBody ::
  "(string option \<Rightarrow> error + string option) \<Rightarrow> string \<Rightarrow> string list \<Rightarrow> bool \<Rightarrow> timeline_event
     \<Rightarrow> string option \<Rightarrow> string option \<Rightarrow> flow" where
  "loopBody findLinkedIssue issueNum assignees isFirst eventObj
       lastAssignedTimestamp lastCommentTimestamp =
     (case crossReferencedByAssignee findLinkedIssue eventObj issueNum assignees of
        Inl err \<Rightarrow> Throws err
      | Inr crossRef \<Rightarrow>
          (if crossRef then Returns \<lparr>result = True, labels = statusUpdatedLabel\<rparr>
           else
             (let eventTimestamp = jsOr (updated_at eventObj) (created_at eventObj) in
              if isFirst \<and> actor eventObj = None then Throws TypeError
              else if event eventObj = ''commented'' then
                (case isCommentByAssignees eventObj assignees of
                   Inl err \<Rightarrow> Throws err
                 | Inr byAssignee \<Rightarrow>
                     (if byAssignee then
                        (if \<not> truthy lastCommentTimestamp
                         then Continues lastAssignedTimestamp eventTimestamp
                         else Continues lastAssignedTimestamp lastCommentTimestamp)
                      else assignedBranch eventObj assignees eventTimestamp
                             lastAssignedTimestamp lastCommentTimestamp))
              else assignedBranch eventObj assignees eventTimestamp
                     lastAssignedTimestamp lastCommentTimestamp)))"

text \<open>
  The loop \<^verbatim>\<open>for (let i = timeline.length - 1; i >= 0; i--)\<close>, as a recursion over the
  events in the order the loop visits them (the timeline reversed). The event at index 0 is
  the one after which nothing is left.
\<close>

fun timelineLoop ::
  "(string option \<Rightarrow> error + string option) \<Rightarrow> string \<Rightarrow> string list \<Rightarrow> timeline_event list
     \<Rightarrow> string option \<Rightarrow> string option \<Rightarrow> flow" where
  "timelineLoop findLinkedIssue issueNum assignees [] lastAssigned lastComment =
     Continues lastAssigned lastComment"
| "timelineLoop findLinkedIssue issueNum assignees (eventObj # rest) lastAssigned lastComment =
     (case loopBody findLinkedIssue issueNum assignees (rest = []) eventObj
             lastAssigned lastComment of
        Throws err \<Rightarrow> Throws err
      | Returns r \<Rightarrow> Returns r
      | Continues lastAssigned' lastComment' \<Rightarrow>
          timelineLoop findLinkedIssue issueNum assignees rest lastAssigned' lastComment')"

text \<open>\<^verbatim>\<open>ts && isMomentRecent(ts, cutoff)\<close>, as a truth value.\<close>

definition recentStamp :: "(string \<Rightarrow> int option) \<Rightarrow> string option \<Rightarrow> int \<Rightarrow> bool" where
  "recentStamp parseDate ts cutoff =
     (case ts of
        None \<Rightarrow> False
      | Some dateString \<Rightarrow> dateString \<noteq> [] \<and> isMomentRecent parseDate dateString cutoff)"

text \<open>The four \<^verbatim>\<open>return\<close>s after the loop.\<close>

definition afterLoop ::
  "(string \<Rightarrow> int option) \<Rightarrow> int \<Rightarrow> int \<Rightarrow> string option \<Rightarrow> string option \<Rightarrow> response" where
  "afterLoop parseDate sevenDayCutoffTime fourteenDayCutoffTime
       lastAssignedTimestamp lastCommentTimestamp =
     (if recentStamp parseDate lastCommentTimestamp sevenDayCutoffTime
      then \<lparr>result = False, labels = statusUpdatedLabel\<rparr>
      else if recentStamp parseDate lastAssignedTimestamp sevenDayCutoffTime
      then \<lparr>result = False, labels = ''''\<rparr>
      else if recentStamp parseDate lastCommentTimestamp fourteenDayCutoffTime
              \<or> recentStamp parseDate lastAssignedTimestamp fourteenDayCutoffTime
      then \<lparr>result = True, labels = toUpdateLabel\<rparr>
      else \<lparr>result = True, labels = inactiveLabel\<rparr>)"

definition isTimelineOutdated ::
  "(string option \<Rightarrow> error + string option) \<Rightarrow> (string \<Rightarrow> int option) \<Rightarrow> int \<Rightarrow> int
     \<Rightarrow> timeline_event list \<Rightarrow> string \<Rightarrow> string list \<Rightarrow> error + response" where
  "isTimelineOutdated findLinkedIssue parseDate sevenDayCutoffTime fourteenDayCutoffTime
       timeline issueNum assignees =
     (case timelineLoop findLinkedIssue issueNum assignees (rev timeline) None None of
        Throws err \<Rightarrow> Inl err
      | Returns r \<Rightarrow> Inr r
      | Continues lastAssignedTimestamp lastCommentTimestamp \<Rightarrow>
          Inr (afterLoop parseDate sevenDayCutoffTime fourteenDayCutoffTime
                 lastAssignedTimestamp lastCommentTimestamp))"

section \<open>The dispatch in main\<close>

text \<open>
  The requests \<^verbatim>\<open>main\<close> sends for one issue. \<^verbatim>\<open>removeLabels\<close> sends one request per
  label and \<^verbatim>\<open>addLabels\<close> sends one request; both catch the errors of their requests.
\<close>

datatype request =
  RemoveLabel string string
| AddLabels string "string list"
| CreateComment string string

definition removeLabels :: "string \<Rightarrow> string list \<Rightarrow> request list" where
  "removeLabels issueNum ls = map (RemoveLabel issueNum) ls"

definition addLabels :: "string \<Rightarrow> string list \<Rightarrow> request list" where
  "addLabels issueNum ls = [AddLabels issueNum ls]"

text \<open>\<^verbatim>\<open>createAssigneeString\<close>: the logins, each after an \<^verbatim>\<open>@\<close>, joined by a comma and a space.\<close>

fun joinWith :: "string \<Rightarrow> string list \<Rightarrow> string" where
  "joinWith separator [] = []"
| "joinWith separator [x] = x"
| "joinWith separator (x # y # ys) = x @ separator @ joinWith separator (y # ys)"

definition createAssigneeString :: "string list \<Rightarrow> string" where
  "createAssigneeString assignees = joinWith '', '' (map (\<lambda>assignee. ''@'' @ assignee) assignees)"

text \<open>
  \<^verbatim>\<open>postComment\<close> builds the body with \<^verbatim>\<open>formatComment\<close> and then sends one request,
  all inside one \<^verbatim>\<open>try\<close>. \<^verbatim>\<open>formatComment\<close> reads the template file and formats the
  cutoff with \<^verbatim>\<open>toLocaleString\<close>; it is the parameter \<open>formatComment\<close>, which gives the
  body, or \<open>None\<close> when it throws. If it throws, the error is logged and no request is sent.
\<close>

definition postComment ::
  "(string \<Rightarrow> string \<Rightarrow> string option) \<Rightarrow> string \<Rightarrow> string list \<Rightarrow> string \<Rightarrow> request list" where
  "postComment formatComment issueNum assignees labelString =
     (let assigneeString = createAssigneeString assignees in
      case formatComment assigneeString labelString of
        None \<Rightarrow> []
      | Some instructions \<Rightarrow> [CreateComment issueNum instructions])"

text \<open>The \<^verbatim>\<open>if\<close> / \<^verbatim>\<open>else if\<close> chain of \<^verbatim>\<open>main\<close> on the response object.\<close>

definition dispatch ::
  "(string \<Rightarrow> string \<Rightarrow> string option) \<Rightarrow> string \<Rightarrow> string list \<Rightarrow> response \<Rightarrow> request list" where
  "dispatch formatComment issueNum assignees responseObject =
     (if result responseObject = False \<and> labels responseObject = statusUpdatedLabel then
        removeLabels issueNum [toUpdateLabel, inactiveLabel]
        @ addLabels issueNum [labels responseObject]
      else if result responseObject = True \<and> labels responseObject = toUpdateLabel then
        removeLabels issueNum [statusUpdatedLabel, inactiveLabel]
        @ addLabels issueNum [labels responseObject]
        @ postComment formatComment issueNum assignees toUpdateLabel
      else if result responseObject = True \<and> labels responseObject = inactiveLabel then
        removeLabels issueNum [toUpdateLabel, statusUpdatedLabel]
        @ addLabels issueNum [labels responseObject]
        @ postComment formatComment issueNum assignees inactiveLabel
      else if result responseObject = False \<and> labels responseObject = '''' then
        removeLabels issueNum [toUpdateLabel, inactiveLabel, statusUpdatedLabel]
      else [])"

text \<open>
  One turn of the loop in \<^verbatim>\<open>main\<close>, for an issue whose assignees and timeline have been
  fetched: an issue without assignees is skipped, and an exception of
  \<^verbatim>\<open>isTimelineOutdated\<close> is not caught.
\<close>

definition mainIssue ::
  "(string \<Rightarrow> string \<Rightarrow> string option) \<Rightarrow> (string option \<Rightarrow> error + string option)
     \<Rightarrow> (string \<Rightarrow> int option) \<Rightarrow> int \<Rightarrow> int
     \<Rightarrow> string \<Rightarrow> string list \<Rightarrow> timeline_event list \<Rightarrow> error + request list" where
  "mainIssue formatComment findLinkedIssue parseDate sevenDayCutoffTime fourteenDayCutoffTime
       issueNum assignees timeline =
     (if length assignees = 0 then Inr []
      else
        (case isTimelineOutdated findLinkedIssue parseDate sevenDayCutoffTime
                fourteenDayCutoffTime timeline issueNum assignees of
           Inl err \<Rightarrow> Inl err
         | Inr responseObject \<Rightarrow>
             Inr (dispatch formatComment issueNum assignees responseObject)))"

section \<open>Observations on a timeline\<close>

text \<open>
  An event is well formed when every property the loop can read on it is there: it has an
  actor; an assignment names the assignee; a cross-reference has a source issue on whose
  body \<open>findLinkedIssue\<close> does not throw.
\<close>

definition wellFormed :: "(string option \<Rightarrow> error + string option) \<Rightarrow> timeline_event \<Rightarrow> bool" where
  "wellFormed findLinkedIssue e =
     (actor e \<noteq> None
      \<and> (if event e = ''assigned'' then assignee e \<noteq> None else True)
      \<and> (if event e = ''cross-referenced'' then
           (case source e of
              None \<Rightarrow> False
            | Some body \<Rightarrow> (case findLinkedIssue body of Inl err \<Rightarrow> False | Inr found \<Rightarrow> True))
         else True))"

text \<open>
  A qualifying cross-reference: the referencing issue's body names \<open>issueNum\<close>, and the
  actor is an assignee.
\<close>

definition linkedByAssignee ::
  "(string option \<Rightarrow> error + string option) \<Rightarrow> string \<Rightarrow> string list \<Rightarrow> timeline_event \<Rightarrow> bool" where
  "linkedByAssignee findLinkedIssue issueNum assignees e =
     (event e = ''cross-referenced''
      \<and> (case source e of
           None \<Rightarrow> False
         | Some body \<Rightarrow> findLinkedIssue body = Inr (Some issueNum))
      \<and> (case actor e of None \<Rightarrow> False | Some login \<Rightarrow> login \<in> set assignees))"

definition commentByAssignee :: "string list \<Rightarrow> timeline_event \<Rightarrow> bool" where
  "commentByAssignee assignees e =
     (event e = ''commented''
      \<and> (case actor e of None \<Rightarrow> False | Some login \<Rightarrow> login \<in> set assignees))"

definition assignedToAssignee :: "string list \<Rightarrow> timeline_event \<Rightarrow> bool" where
  "assignedToAssignee assignees e =
     (event e = ''assigned''
      \<and> (case assignee e of None \<Rightarrow> False | Some login \<Rightarrow> login \<in> set assignees))"

text \<open>
  The timestamp of an event, read off its two date properties: \<^verbatim>\<open>updated_at\<close> when that
  is there (a non-empty string), and \<^verbatim>\<open>created_at\<close> otherwise. That the loop works
  with this value is \<open>loopBody_plain\<close> below.
\<close>

definition timestampOf :: "timeline_event \<Rightarrow> string option" where
  "timestampOf e =
     (case updated_at e of
        None \<Rightarrow> created_at e
      | Some edited \<Rightarrow> (if edited = [] then created_at e else Some edited))"

text \<open>
  The most recent event of a kind is the one nearest the end of the timeline, which the API
  gives oldest first; the loop reads it from the end, and an event without a timestamp
  leaves the loop's variable unset. \<open>stampOf\<close> is the timestamp of such an event, if any.
\<close>

definition mostRecent :: "(timeline_event \<Rightarrow> bool) \<Rightarrow> timeline_event list \<Rightarrow> timeline_event option" where
  "mostRecent kind timeline = find (\<lambda>e. kind e \<and> truthy (timestampOf e)) (rev timeline)"

definition stampOf :: "timeline_event option \<Rightarrow> string option" where
  "stampOf found = (case found of None \<Rightarrow> None | Some e \<Rightarrow> timestampOf e)"

text \<open>
  The time value of an event: that of its timestamp, if it has one that parses. A timeline
  is chronological when every event has a time value and none is later than that of an
  event after it in the list.
\<close>

definition eventTime :: "(string \<Rightarrow> int option) \<Rightarrow> timeline_event \<Rightarrow> int option" where
  "eventTime parseDate e =
     (case timestampOf e of
        None \<Rightarrow> None
      | Some dateString \<Rightarrow> (if dateString = [] then None else parseDate dateString))"

definition notAfter :: "(string \<Rightarrow> int option) \<Rightarrow> timeline_event \<Rightarrow> timeline_event \<Rightarrow> bool" where
  "notAfter parseDate a b =
     (case eventTime parseDate a of
        None \<Rightarrow> False
      | Some ta \<Rightarrow> (case eventTime parseDate b of None \<Rightarrow> False | Some tb \<Rightarrow> ta \<le> tb))"

definition chronological :: "(string \<Rightarrow> int option) \<Rightarrow> timeline_event list \<Rightarrow> bool" where
  "chronological parseDate timeline =
     (list_all (\<lambda>e. eventTime parseDate e \<noteq> None) timeline
      \<and> sorted_wrt (notAfter parseDate) timeline)"

text \<open>
  The latest time among the events of a kind, wherever they stand in the timeline, and the
  test that such a time exists and is not before a cutoff.
\<close>

fun timesOf ::
  "(string \<Rightarrow> int option) \<Rightarrow> (timeline_event \<Rightarrow> bool) \<Rightarrow> timeline_event list \<Rightarrow> int list" where
  "timesOf parseDate kind [] = []"
| "timesOf parseDate kind (e # es) =
     (if kind e then
        (case eventTime parseDate e of
           None \<Rightarrow> timesOf parseDate kind es
         | Some t \<Rightarrow> t # timesOf parseDate kind es)
      else timesOf parseDate kind es)"

definition latestTime ::
  "(string \<Rightarrow> int option) \<Rightarrow> (timeline_event \<Rightarrow> bool) \<Rightarrow> timeline_event list \<Rightarrow> int option" where
  "latestTime parseDate kind timeline =
     (case timesOf parseDate kind timeline of
        [] \<Rightarrow> None
      | t # ts \<Rightarrow> Some (fold max ts t))"

definition onOrAfter :: "int option \<Rightarrow> int \<Rightarrow> bool" where
  "onOrAfter latest cutoff = (case latest of None \<Rightarrow> False | Some t \<Rightarrow> cutoff \<le> t)"

text \<open>A variable of the loop that holds a falsy value is as good as unset.\<close>

definition unsetIfFalsy :: "string option \<Rightarrow> string option" where
  "unsetIfFalsy ts = (if truthy ts then ts else None)"

section \<open>Sample values\<close>

text \<open>
  For the examples: the load time 2021-06-15T00:00:00Z, the time values that
  \<^verbatim>\<open>new Date(s)\<close> has for the date strings the examples use (any other string that
  occurs in them, such as \<^verbatim>\<open>not a date\<close>, is an Invalid Date), and the answers of
  \<^verbatim>\<open>findLinkedIssue\<close> on the bodies the examples use (it reads the number after the
  keyword, finds nothing in the other body, and throws on a null body).
\<close>

definition sampleNow :: int where
  "sampleNow = 1623715200000"

definition sampleDate :: "string \<Rightarrow> int option" where
  "sampleDate s =
     (if s = ''2021-06-13T00:00:00Z'' then Some 1623542400000
      else if s = ''2021-06-12T00:00:00Z'' then Some 1623456000000
      else if s = ''2021-06-08T00:00:00Z'' then Some 1623110400000
      else if s = ''2021-06-05T00:00:00Z'' then Some 1622851200000
      else if s = ''2021-05-26T00:00:00Z'' then Some 1621987200000
      else None)"

definition sampleFindLinkedIssue :: "string option \<Rightarrow> error + string option" where
  "sampleFindLinkedIssue body =
     (case body of
        None \<Rightarrow> Inl TypeError
      | Some text \<Rightarrow> (if text = ''Fixes #42'' then Inr (Some ''42'') else Inr None))"

text \<open>
  A stand-in for \<^verbatim>\<open>formatComment\<close> with the template file in place: the body names the
  assignees and the label.
\<close>

definition sampleFormatComment :: "string \<Rightarrow> string \<Rightarrow> string option" where
  "sampleFormatComment assigneeString labelString =
     Some (assigneeString @ '' please update: '' @ labelString)"

abbreviation commentedAt :: "string \<Rightarrow> string \<Rightarrow> timeline_event" where
  "commentedAt login created \<equiv>
     \<lparr>event = ''commented'', actor = Some login, assignee = None, source = None,
      updated_at = None, created_at = Some created\<rparr>"

abbreviation assignedAt :: "string \<Rightarrow> string \<Rightarrow> string \<Rightarrow> timeline_event" where
  "assignedAt by login created \<equiv>
     \<lparr>event = ''assigned'', actor = Some by, assignee = Some login, source = None,
      updated_at = None, created_at = Some created\<rparr>"

abbreviation crossReferencedAt :: "string \<Rightarrow> string \<Rightarrow> string \<Rightarrow> timeline_event" where
  "crossReferencedAt login body created \<equiv>
     \<lparr>event = ''cross-referenced'', actor = Some login, assignee = None,
      source = Some (Some body), updated_at = None, created_at = Some created\<rparr>"

section \<open>The loop on well-formed events\<close>

lemma recentStamp_unset: "recentStamp p (unsetIfFalsy ts) c = recentStamp p ts c"
  by (cases ts) (auto simp: unsetIfFalsy_def recentStamp_def)

lemma crossRef_wf:
  "wellFormed fl e \<Longrightarrow>
   crossReferencedByAssignee fl e n as = Inr (linkedByAssignee fl n as e)"
  by (auto simp: wellFormed_def crossReferencedByAssignee_def linkedByAssignee_def
        isLinkedIssue_def split: option.splits sum.splits if_splits)

lemma loopBody_linked:
  "wellFormed fl e \<Longrightarrow> linkedByAssignee fl n as e \<Longrightarrow>
   loopBody fl n as b e la lc = Returns \<lparr>result = True, labels = statusUpdatedLabel\<rparr>"
  by (simp add: loopBody_def crossRef_wf)

lemma timestampOf_jsOr: "jsOr (updated_at e) (created_at e) = timestampOf e"
  by (cases "updated_at e") (simp_all add: jsOr_def timestampOf_def)

lemma loopBody_plain:
  "wellFormed fl e \<Longrightarrow> \<not> linkedByAssignee fl n as e \<Longrightarrow>
   loopBody fl n as b e la lc =
     Continues
       (if assignedToAssignee as e \<and> \<not> truthy la then timestampOf e else la)
       (if commentByAssignee as e \<and> \<not> truthy lc then timestampOf e else lc)"
  by (auto simp: loopBody_def crossRef_wf wellFormed_def assignedBranch_def
        isCommentByAssignees_def commentByAssignee_def assignedToAssignee_def timestampOf_jsOr
        Let_def split: option.splits if_splits)

lemma loop_plain:
  "\<forall>e\<in>set es. wellFormed fl e \<and> \<not> linkedByAssignee fl n as e \<Longrightarrow>
   \<exists>la' lc'. timelineLoop fl n as es la lc = Continues la' lc'
     \<and> unsetIfFalsy la' = (if truthy la then la
                   else stampOf (find (\<lambda>e. assignedToAssignee as e \<and> truthy (timestampOf e)) es))
     \<and> unsetIfFalsy lc' = (if truthy lc then lc
                   else stampOf (find (\<lambda>e. commentByAssignee as e \<and> truthy (timestampOf e)) es))"
proof (induction es arbitrary: la lc)
  case Nil
  then show ?case by (simp add: unsetIfFalsy_def stampOf_def)
next
  case (Cons e es)
  define la1 where "la1 = (if assignedToAssignee as e \<and> \<not> truthy la then timestampOf e else la)"
  define lc1 where "lc1 = (if commentByAssignee as e \<and> \<not> truthy lc then timestampOf e else lc)"
  from Cons.prems have e: "wellFormed fl e" "\<not> linkedByAssignee fl n as e"
    and es: "\<forall>e\<in>set es. wellFormed fl e \<and> \<not> linkedByAssignee fl n as e"
    by simp_all
  from Cons.IH [OF es, of la1 lc1] obtain la' lc' where
    run: "timelineLoop fl n as es la1 lc1 = Continues la' lc'"
    and a: "unsetIfFalsy la' = (if truthy la1 then la1
              else stampOf (find (\<lambda>e. assignedToAssignee as e \<and> truthy (timestampOf e)) es))"
    and c: "unsetIfFalsy lc' = (if truthy lc1 then lc1
              else stampOf (find (\<lambda>e. commentByAssignee as e \<and> truthy (timestampOf e)) es))"
    by blast
  have "timelineLoop fl n as (e # es) la lc = Continues la' lc'"
    using e run by (simp add: loopBody_plain la1_def lc1_def)
  moreover have "unsetIfFalsy la' = (if truthy la then la
      else stampOf (find (\<lambda>e. assignedToAssignee as e \<and> truthy (timestampOf e)) (e # es)))"
    using a by (simp add: la1_def stampOf_def split: if_splits)
  moreover have "unsetIfFalsy lc' = (if truthy lc then lc
      else stampOf (find (\<lambda>e. commentByAssignee as e \<and> truthy (timestampOf e)) (e # es)))"
    using c by (simp add: lc1_def stampOf_def split: if_splits)
  ultimately show ?case by blast
qed

lemma loop_linked:
  "\<forall>e\<in>set es. wellFormed fl e \<Longrightarrow> \<exists>e\<in>set es. linkedByAssignee fl n as e \<Longrightarrow>
   timelineLoop fl n as es la lc = Returns \<lparr>result = True, labels = statusUpdatedLabel\<rparr>"
proof (induction es arbitrary: la lc)
  case Nil
  then show ?case by simp
next
  case (Cons e es)
  show ?case
  proof (cases "linkedByAssignee fl n as e")
    case True
    with Cons.prems show ?thesis by (simp add: loopBody_linked)
  next
    case False
    with Cons show ?thesis by (simp add: loopBody_plain)
  qed
qed

lemma afterLoop_unset:
  "afterLoop p c7 c14 la lc = afterLoop p c7 c14 (unsetIfFalsy la) (unsetIfFalsy lc)"
  by (simp add: afterLoop_def recentStamp_unset)

lemma outdated_plain:
  assumes "\<forall>e\<in>set timeline. wellFormed fl e \<and> \<not> linkedByAssignee fl n as e"
  shows "isTimelineOutdated fl p c7 c14 timeline n as =
           Inr (afterLoop p c7 c14
                  (stampOf (mostRecent (assignedToAssignee as) timeline))
                  (stampOf (mostRecent (commentByAssignee as) timeline)))"
proof -
  from assms have "\<forall>e\<in>set (rev timeline). wellFormed fl e \<and> \<not> linkedByAssignee fl n as e"
    by simp
  from loop_plain [OF this, of None None] obtain la' lc' where
    run: "timelineLoop fl n as (rev timeline) None None = Continues la' lc'"
    and a: "unsetIfFalsy la' = stampOf (mostRecent (assignedToAssignee as) timeline)"
    and c: "unsetIfFalsy lc' = stampOf (mostRecent (commentByAssignee as) timeline)"
    by (auto simp: mostRecent_def)
  have "isTimelineOutdated fl p c7 c14 timeline n as = Inr (afterLoop p c7 c14 la' lc')"
    by (simp add: isTimelineOutdated_def run)
  also have "afterLoop p c7 c14 la' lc' = afterLoop p c7 c14 (unsetIfFalsy la') (unsetIfFalsy lc')"
    by (rule afterLoop_unset)
  finally show ?thesis by (simp add: a c)
qed

lemma outdated_linked:
  assumes "\<forall>e\<in>set timeline. wellFormed fl e"
    and "\<exists>e\<in>set timeline. linkedByAssignee fl n as e"
  shows "isTimelineOutdated fl p c7 c14 timeline n as =
           Inr \<lparr>result = True, labels = statusUpdatedLabel\<rparr>"
proof -
  have "timelineLoop fl n as (rev timeline) None None =
          Returns \<lparr>result = True, labels = statusUpdatedLabel\<rparr>"
    using assms by (intro loop_linked) simp_all
  then show ?thesis by (simp add: isTimelineOutdated_def)
qed



lemma recentStamp_stampOf:
  "recentStamp p (stampOf (Some e)) c =
     (case eventTime p e of None \<Rightarrow> False | Some t \<Rightarrow> c \<le> t)"
  by (simp add: recentStamp_def stampOf_def eventTime_def isMomentRecent_def
        split: option.splits)

lemma mostRecent_None:
  "mostRecent kind timeline = None \<longleftrightarrow>
     (\<forall>e\<in>set timeline. \<not> (kind e \<and> truthy (timestampOf e)))"
  by (auto simp: mostRecent_def find_None_iff)

lemma find_Some_member: "find P xs = Some m \<Longrightarrow> m \<in> set xs \<and> P m"
  by (induction xs) (auto split: if_splits)

lemma mostRecent_Some:
  "mostRecent kind timeline = Some m \<Longrightarrow> m \<in> set timeline \<and> kind m \<and> truthy (timestampOf m)"
  unfolding mostRecent_def by (drule find_Some_member) simp

lemma mostRecent_latest:
  "sorted_wrt R timeline \<Longrightarrow> mostRecent kind timeline = Some m \<Longrightarrow>
   x \<in> set timeline \<Longrightarrow> kind x \<Longrightarrow> truthy (timestampOf x) \<Longrightarrow> x = m \<or> R x m"
proof (induction timeline rule: rev_induct)
  case Nil
  then show ?case by simp
next
  case (snoc y ys)
  show ?case
  proof (cases "kind y \<and> truthy (timestampOf y)")
    case True
    with snoc.prems(2) have "m = y" by (simp add: mostRecent_def)
    with snoc.prems(1,3) show ?thesis by (auto simp: sorted_wrt_append)
  next
    case False
    with snoc.prems(2) have m: "mostRecent kind ys = Some m" by (simp add: mostRecent_def)
    from False snoc.prems(3,4,5) have x: "x \<in> set ys" by auto
    from snoc.prems(1) have "sorted_wrt R ys" by (simp add: sorted_wrt_append)
    from snoc.IH [OF this m x snoc.prems(4,5)] show ?thesis .
  qed
qed

lemma notAfter_antisym:
  "notAfter p a b \<Longrightarrow> notAfter p b a \<Longrightarrow> eventTime p a = eventTime p b"
  by (auto simp: notAfter_def split: option.splits)

lemma mostRecent_time:
  assumes "chronological p t1" "chronological p t2" "set t1 = set t2"
  shows "recentStamp p (stampOf (mostRecent kind t1)) c =
         recentStamp p (stampOf (mostRecent kind t2)) c"
proof (cases "mostRecent kind t1")
  case None
  then have "mostRecent kind t2 = None"
    using assms(3) by (simp add: mostRecent_None)
  with None show ?thesis by simp
next
  case (Some m1)
  then have "mostRecent kind t2 \<noteq> None"
    using assms(3) mostRecent_Some [OF Some] by (auto simp: mostRecent_None)
  then obtain m2 where m2: "mostRecent kind t2 = Some m2" by blast
  note k1 = mostRecent_Some [OF Some] and k2 = mostRecent_Some [OF m2]
  from assms(1,2) have s: "sorted_wrt (notAfter p) t1" "sorted_wrt (notAfter p) t2"
    by (simp_all add: chronological_def)
  have "m2 = m1 \<or> notAfter p m2 m1"
    using mostRecent_latest [OF s(1) Some, of m2] k2 assms(3) by simp
  moreover have "m1 = m2 \<or> notAfter p m1 m2"
    using mostRecent_latest [OF s(2) m2, of m1] k1 assms(3) by simp
  ultimately have "eventTime p m1 = eventTime p m2"
    by (auto dest: notAfter_antisym)
  then show ?thesis by (simp add: Some m2 recentStamp_stampOf)
qed

lemma mostRecent_chronological:
  assumes "chronological p timeline" "mostRecent kind timeline = Some m"
    and "x \<in> set timeline" "kind x" "truthy (timestampOf x)"
  shows "\<exists>tx tm. eventTime p x = Some tx \<and> eventTime p m = Some tm \<and> tx \<le> tm"
proof -
  from assms(1) have s: "sorted_wrt (notAfter p) timeline"
    and t: "\<forall>e\<in>set timeline. eventTime p e \<noteq> None"
    by (simp_all add: chronological_def list_all_iff)
  from mostRecent_latest [OF s assms(2,3,4,5)] show ?thesis
  proof
    assume "x = m"
    with t assms(3) show ?thesis by auto
  next
    assume "notAfter p x m"
    then show ?thesis by (auto simp: notAfter_def split: option.splits)
  qed
qed

lemma set_timesOf:
  "set (timesOf p kind es) = {t. \<exists>e\<in>set es. kind e \<and> eventTime p e = Some t}"
  by (induction es) (auto split: option.splits)

lemma eventTime_truthy: "eventTime p e = Some t \<Longrightarrow> truthy (timestampOf e)"
  by (auto simp: eventTime_def split: option.splits if_splits)

lemma latestTime_chronological:
  assumes "chronological p timeline"
  shows "latestTime p kind timeline
         = (case mostRecent kind timeline of None \<Rightarrow> None | Some m \<Rightarrow> eventTime p m)"
proof (cases "mostRecent kind timeline")
  case None
  then have "set (timesOf p kind timeline) = {}"
    by (auto simp: set_timesOf mostRecent_None dest: eventTime_truthy)
  then have "timesOf p kind timeline = []" by simp
  with None show ?thesis by (simp add: latestTime_def)
next
  case (Some m)
  note found = mostRecent_Some [OF Some]
  from assms found obtain tm where tm: "eventTime p m = Some tm"
    by (auto simp: chronological_def list_all_iff)
  with found have top: "tm \<in> set (timesOf p kind timeline)"
    by (auto simp: set_timesOf)
  have below: "t \<le> tm" if "t \<in> set (timesOf p kind timeline)" for t
  proof -
    from that obtain x where x: "x \<in> set timeline" "kind x" "eventTime p x = Some t"
      by (auto simp: set_timesOf)
    from mostRecent_chronological [OF assms Some x(1,2) eventTime_truthy [OF x(3)]] x(3) tm
    show ?thesis by simp
  qed
  from top obtain t ts where split: "timesOf p kind timeline = t # ts"
    by (cases "timesOf p kind timeline") auto
  have "fold max ts t = Max (set (t # ts))"
    by (simp only: Max.set_eq_fold)
  also have "\<dots> = tm"
    using top below unfolding split by (intro Max_eqI) auto
  finally show ?thesis by (simp add: latestTime_def split Some tm)
qed

lemma recentStamp_latest:
  assumes "chronological p timeline"
  shows "recentStamp p (stampOf (mostRecent kind timeline)) c
         = onOrAfter (latestTime p kind timeline) c"
proof (cases "mostRecent kind timeline")
  case None
  then show ?thesis
    by (simp add: latestTime_chronological [OF assms] onOrAfter_def stampOf_def recentStamp_def)
next
  case (Some m)
  then show ?thesis
    by (simp add: latestTime_chronological [OF assms] onOrAfter_def recentStamp_stampOf)
qed

lemma outdated_chronological:
  assumes "\<forall>e\<in>set timeline. wellFormed fl e \<and> \<not> linkedByAssignee fl n as e"
    and "chronological p timeline"
  shows "isTimelineOutdated fl p c7 c14 timeline n as =
     Inr (if onOrAfter (latestTime p (commentByAssignee as) timeline) c7
          then \<lparr>result = False, labels = statusUpdatedLabel\<rparr>
          else if onOrAfter (latestTime p (assignedToAssignee as) timeline) c7
          then \<lparr>result = False, labels = ''''\<rparr>
          else if onOrAfter (latestTime p (commentByAssignee as) timeline) c14
                  \<or> onOrAfter (latestTime p (assignedToAssignee as) timeline) c14
          then \<lparr>result = True, labels = toUpdateLabel\<rparr>
          else \<lparr>result = True, labels = inactiveLabel\<rparr>)"
  by (simp only: outdated_plain [OF assms(1)] afterLoop_def recentStamp_latest [OF assms(2)])

lemma find_skip: "\<forall>x\<in>set xs. \<not> P x \<Longrightarrow> find P (xs @ ys) = find P ys"
  by (induction xs) simp_all

lemma mostRecent_last:
  assumes "timeline = before @ c # after" "kind c" "truthy (timestampOf c)"
    and "\<forall>x\<in>set after. \<not> kind x"
  shows "mostRecent kind timeline = Some c"
proof -
  from assms(4) have "\<forall>x\<in>set (rev after). \<not> (kind x \<and> truthy (timestampOf x))" by simp
  from find_skip [OF this] assms(2,3) show ?thesis
    by (simp add: mostRecent_def assms(1))
qed

lemma afterLoop_cong:
  assumes "\<And>c. recentStamp p la c = recentStamp p la' c"
    and "\<And>c. recentStamp p lc c = recentStamp p lc' c"
  shows "afterLoop p c7 c14 la lc = afterLoop p c7 c14 la' lc'"
  by (simp add: afterLoop_def assms)

lemmas model_defs =
  isTimelineOutdated_def loopBody_def crossReferencedByAssignee_def isLinkedIssue_def
  isCommentByAssignees_def assignedBranch_def jsOr_def afterLoop_def recentStamp_def
  isMomentRecent_def dispatch_def mainIssue_def removeLabels_def addLabels_def
  postComment_def createAssigneeString_def

lemmas observation_defs =
  wellFormed_def linkedByAssignee_def commentByAssignee_def assignedToAssignee_def
  timestampOf_def mostRecent_def stampOf_def eventTime_def notAfter_def chronological_def
  latestTime_def onOrAfter_def

lemmas sample_defs =
  sampleDate_def sampleFindLinkedIssue_def sampleNow_def cutoffTime_def commentByDays_def
  inactiveUpdatedByDays_def msPerDay_def

lemmas label_defs = statusUpdatedLabel_def toUpdateLabel_def inactiveLabel_def

section \<open>The cross-reference path\<close>

text \<open>
  C1 says that a timeline with a qualifying cross-reference is classified as updated, and
  the comments and the log line of the script say the same. The response of an updated
  issue is \<^verbatim>\<open>{result: false, labels: 'Status: Updated'}\<close>: the comment path returns it
  and the first branch of \<^verbatim>\<open>main\<close> tests for it. On the cross-reference path the
  function returns the label with \<^verbatim>\<open>result: true\<close>, the flag of an outdated issue. For the
  issue below, cross-referenced by its assignee, the response is not the updated one and
  \<^verbatim>\<open>main\<close> sends nothing, while for a comment of the same day it sets the label.
\<close>

theorem cross_reference_result_flag:
  "isTimelineOutdated sampleFindLinkedIssue sampleDate
     (cutoffTime sampleNow commentByDays) (cutoffTime sampleNow inactiveUpdatedByDays)
     [crossReferencedAt ''alice'' ''Fixes #42'' ''2021-06-13T00:00:00Z''] ''42'' [''alice'']
     = Inr \<lparr>result = True, labels = ''Status: Updated''\<rparr>
   \<and> isTimelineOutdated sampleFindLinkedIssue sampleDate
       (cutoffTime sampleNow commentByDays) (cutoffTime sampleNow inactiveUpdatedByDays)
       [commentedAt ''alice'' ''2021-06-13T00:00:00Z''] ''42'' [''alice'']
     = Inr \<lparr>result = False, labels = ''Status: Updated''\<rparr>
   \<and> mainIssue sampleFormatComment sampleFindLinkedIssue sampleDate
       (cutoffTime sampleNow commentByDays) (cutoffTime sampleNow inactiveUpdatedByDays)
       ''42'' [''alice'']
       [crossReferencedAt ''alice'' ''Fixes #42'' ''2021-06-13T00:00:00Z'']
     = Inr []
   \<and> mainIssue sampleFormatComment sampleFindLinkedIssue sampleDate
       (cutoffTime sampleNow commentByDays) (cutoffTime sampleNow inactiveUpdatedByDays)
       ''42'' [''alice'']
       [commentedAt ''alice'' ''2021-06-13T00:00:00Z'']
     = Inr [RemoveLabel ''42'' ''To Update !'', RemoveLabel ''42'' ''2 weeks inactive'',
            AddLabels ''42'' [''Status: Updated'']]"
proof -
  have crossRef: "isTimelineOutdated sampleFindLinkedIssue sampleDate
     (cutoffTime sampleNow commentByDays) (cutoffTime sampleNow inactiveUpdatedByDays)
     [crossReferencedAt ''alice'' ''Fixes #42'' ''2021-06-13T00:00:00Z''] ''42'' [''alice'']
     = Inr \<lparr>result = True, labels = ''Status: Updated''\<rparr>"
    by (simp add: model_defs sample_defs label_defs)
  have comment: "isTimelineOutdated sampleFindLinkedIssue sampleDate
     (cutoffTime sampleNow commentByDays) (cutoffTime sampleNow inactiveUpdatedByDays)
     [commentedAt ''alice'' ''2021-06-13T00:00:00Z''] ''42'' [''alice'']
     = Inr \<lparr>result = False, labels = ''Status: Updated''\<rparr>"
    by (simp add: model_defs sample_defs label_defs)
  have "mainIssue sampleFormatComment sampleFindLinkedIssue sampleDate
       (cutoffTime sampleNow commentByDays) (cutoffTime sampleNow inactiveUpdatedByDays)
       ''42'' [''alice'']
       [crossReferencedAt ''alice'' ''Fixes #42'' ''2021-06-13T00:00:00Z''] = Inr []"
    by (simp add: mainIssue_def crossRef dispatch_def label_defs)
  moreover have "mainIssue sampleFormatComment sampleFindLinkedIssue sampleDate
       (cutoffTime sampleNow commentByDays) (cutoffTime sampleNow inactiveUpdatedByDays)
       ''42'' [''alice'']
       [commentedAt ''alice'' ''2021-06-13T00:00:00Z'']
     = Inr [RemoveLabel ''42'' ''To Update !'', RemoveLabel ''42'' ''2 weeks inactive'',
            AddLabels ''42'' [''Status: Updated'']]"
    by (simp add: mainIssue_def comment dispatch_def label_defs removeLabels_def addLabels_def)
  ultimately show ?thesis using crossRef comment by blast
qed

text \<open>
  C2. On that path the response object is \<^verbatim>\<open>{result: true, labels: 'Status: Updated'}\<close>.
  None of the four conditions that \<^verbatim>\<open>main\<close> tests holds for it, so \<^verbatim>\<open>main\<close> sends
  no request for the issue: no label is removed or added and no comment is posted.
\<close>

theorem cross_reference_no_request:
  assumes "\<forall>x\<in>set timeline. wellFormed findLinkedIssue x"
    and "e \<in> set timeline"
    and "linkedByAssignee findLinkedIssue issueNum assignees e"
  shows "isTimelineOutdated findLinkedIssue parseDate sevenDayCutoffTime
           fourteenDayCutoffTime timeline issueNum assignees
           = Inr \<lparr>result = True, labels = statusUpdatedLabel\<rparr>
       \<and> \<not> (result \<lparr>result = True, labels = statusUpdatedLabel\<rparr> = False
             \<and> labels \<lparr>result = True, labels = statusUpdatedLabel\<rparr> = statusUpdatedLabel)
       \<and> \<not> (result \<lparr>result = True, labels = statusUpdatedLabel\<rparr> = True
             \<and> labels \<lparr>result = True, labels = statusUpdatedLabel\<rparr> = toUpdateLabel)
       \<and> \<not> (result \<lparr>result = True, labels = statusUpdatedLabel\<rparr> = True
             \<and> labels \<lparr>result = True, labels = statusUpdatedLabel\<rparr> = inactiveLabel)
       \<and> \<not> (result \<lparr>result = True, labels = statusUpdatedLabel\<rparr> = False
             \<and> labels \<lparr>result = True, labels = statusUpdatedLabel\<rparr> = '''')
       \<and> dispatch formatComment issueNum assignees
           \<lparr>result = True, labels = statusUpdatedLabel\<rparr> = []
       \<and> mainIssue formatComment findLinkedIssue parseDate sevenDayCutoffTime
           fourteenDayCutoffTime issueNum assignees timeline = Inr []"
proof -
  from assms(2,3) have "\<exists>x\<in>set timeline. linkedByAssignee findLinkedIssue issueNum assignees x"
    by blast
  from outdated_linked [OF assms(1) this]
  have run: "isTimelineOutdated findLinkedIssue parseDate sevenDayCutoffTime
      fourteenDayCutoffTime timeline issueNum assignees
      = Inr \<lparr>result = True, labels = statusUpdatedLabel\<rparr>" .
  have quiet: "dispatch formatComment issueNum assignees
      \<lparr>result = True, labels = statusUpdatedLabel\<rparr> = []"
    by (simp add: dispatch_def label_defs)
  have "mainIssue formatComment findLinkedIssue parseDate sevenDayCutoffTime
      fourteenDayCutoffTime issueNum assignees timeline = Inr []"
    by (simp add: mainIssue_def run quiet)
  with run quiet show ?thesis by (simp add: label_defs)
qed

theorem cross_reference_no_request_witness:
  "wellFormed sampleFindLinkedIssue (crossReferencedAt ''alice'' ''Fixes #42'' ''2021-05-26T00:00:00Z'')
   \<and> linkedByAssignee sampleFindLinkedIssue ''42'' [''alice'']
        (crossReferencedAt ''alice'' ''Fixes #42'' ''2021-05-26T00:00:00Z'')
   \<and> isTimelineOutdated sampleFindLinkedIssue sampleDate
        (cutoffTime sampleNow commentByDays) (cutoffTime sampleNow inactiveUpdatedByDays)
        [crossReferencedAt ''alice'' ''Fixes #42'' ''2021-05-26T00:00:00Z'']
        ''42'' [''alice''] = Inr \<lparr>result = True, labels = ''Status: Updated''\<rparr>
   \<and> mainIssue sampleFormatComment sampleFindLinkedIssue sampleDate
        (cutoffTime sampleNow commentByDays) (cutoffTime sampleNow inactiveUpdatedByDays)
        ''42'' [''alice'']
        [crossReferencedAt ''alice'' ''Fixes #42'' ''2021-05-26T00:00:00Z''] = Inr []"
proof -
  let ?x = "crossReferencedAt ''alice'' ''Fixes #42'' ''2021-05-26T00:00:00Z''"
  have wf: "wellFormed sampleFindLinkedIssue ?x"
    by (simp add: wellFormed_def sampleFindLinkedIssue_def)
  then have all: "\<forall>x\<in>set [?x]. wellFormed sampleFindLinkedIssue x" by simp
  have mem: "?x \<in> set [?x]" by simp
  have linked: "linkedByAssignee sampleFindLinkedIssue ''42'' [''alice''] ?x"
    by (simp add: linkedByAssignee_def sampleFindLinkedIssue_def)
  from cross_reference_no_request [where formatComment = sampleFormatComment, OF all mem linked]
    wf linked show ?thesis
    by (simp add: statusUpdatedLabel_def)
qed

section \<open>The order of the events\<close>

text \<open>
  C3, as stated, does not hold: the loop takes the qualifying comment nearest the end of the
  array, whatever its timestamp. The two comments below have different timestamps, so no
  tie applies; with the older one last the newer one is never looked at.
\<close>

theorem order_dependent_counterexample:
  "mset [commentedAt ''alice'' ''2021-06-05T00:00:00Z'',
         commentedAt ''alice'' ''2021-06-13T00:00:00Z'']
     = mset [commentedAt ''alice'' ''2021-06-13T00:00:00Z'',
             commentedAt ''alice'' ''2021-06-05T00:00:00Z'']
   \<and> sampleDate ''2021-06-05T00:00:00Z'' \<noteq> sampleDate ''2021-06-13T00:00:00Z''
   \<and> isTimelineOutdated sampleFindLinkedIssue sampleDate
        (cutoffTime sampleNow commentByDays) (cutoffTime sampleNow inactiveUpdatedByDays)
        [commentedAt ''alice'' ''2021-06-05T00:00:00Z'',
         commentedAt ''alice'' ''2021-06-13T00:00:00Z'']
        ''42'' [''alice''] = Inr \<lparr>result = False, labels = ''Status: Updated''\<rparr>
   \<and> isTimelineOutdated sampleFindLinkedIssue sampleDate
        (cutoffTime sampleNow commentByDays) (cutoffTime sampleNow inactiveUpdatedByDays)
        [commentedAt ''alice'' ''2021-06-13T00:00:00Z'',
         commentedAt ''alice'' ''2021-06-05T00:00:00Z'']
        ''42'' [''alice''] = Inr \<lparr>result = True, labels = ''To Update !''\<rparr>"
proof -
  have "mset [commentedAt ''alice'' ''2021-06-05T00:00:00Z'',
              commentedAt ''alice'' ''2021-06-13T00:00:00Z'']
      = mset [commentedAt ''alice'' ''2021-06-13T00:00:00Z'',
              commentedAt ''alice'' ''2021-06-05T00:00:00Z'']"
    by (simp add: add_mset_commute)
  moreover have "sampleDate ''2021-06-05T00:00:00Z'' \<noteq> sampleDate ''2021-06-13T00:00:00Z''"
    by (simp add: sampleDate_def)
  moreover have "isTimelineOutdated sampleFindLinkedIssue sampleDate
        (cutoffTime sampleNow commentByDays) (cutoffTime sampleNow inactiveUpdatedByDays)
        [commentedAt ''alice'' ''2021-06-05T00:00:00Z'',
         commentedAt ''alice'' ''2021-06-13T00:00:00Z'']
        ''42'' [''alice''] = Inr \<lparr>result = False, labels = ''Status: Updated''\<rparr>"
    by (simp add: model_defs sample_defs label_defs)
  moreover have "isTimelineOutdated sampleFindLinkedIssue sampleDate
        (cutoffTime sampleNow commentByDays) (cutoffTime sampleNow inactiveUpdatedByDays)
        [commentedAt ''alice'' ''2021-06-13T00:00:00Z'',
         commentedAt ''alice'' ''2021-06-05T00:00:00Z'']
        ''42'' [''alice''] = Inr \<lparr>result = True, labels = ''To Update !''\<rparr>"
    by (simp add: model_defs sample_defs label_defs)
  ultimately show ?thesis by blast
qed

text \<open>
  C3, amended. Two timelines that hold the same events, each in chronological order, get the
  same response: they can differ only in the order of events with equal times, and the
  response depends on the times of the most recent comment and assignment only.
\<close>

theorem chronological_order_independent:
  assumes "\<forall>e\<in>set timeline1. wellFormed findLinkedIssue e"
    and "mset timeline1 = mset timeline2"
    and "chronological parseDate timeline1"
    and "chronological parseDate timeline2"
  shows "isTimelineOutdated findLinkedIssue parseDate sevenDayCutoffTime fourteenDayCutoffTime
           timeline1 issueNum assignees
       = isTimelineOutdated findLinkedIssue parseDate sevenDayCutoffTime fourteenDayCutoffTime
           timeline2 issueNum assignees"
proof -
  from assms(2) have same: "set timeline1 = set timeline2" by (rule mset_eq_setD)
  with assms(1) have wf2: "\<forall>e\<in>set timeline2. wellFormed findLinkedIssue e" by simp
  show ?thesis
  proof (cases "\<exists>e\<in>set timeline1. linkedByAssignee findLinkedIssue issueNum assignees e")
    case True
    then have "\<exists>e\<in>set timeline2. linkedByAssignee findLinkedIssue issueNum assignees e"
      using same by simp
    with True assms(1) wf2 show ?thesis by (simp add: outdated_linked)
  next
    case False
    then have p1: "\<forall>e\<in>set timeline1. wellFormed findLinkedIssue e
        \<and> \<not> linkedByAssignee findLinkedIssue issueNum assignees e"
      using assms(1) by simp
    then have p2: "\<forall>e\<in>set timeline2. wellFormed findLinkedIssue e
        \<and> \<not> linkedByAssignee findLinkedIssue issueNum assignees e"
      using same by simp
    have "afterLoop parseDate sevenDayCutoffTime fourteenDayCutoffTime
            (stampOf (mostRecent (assignedToAssignee assignees) timeline1))
            (stampOf (mostRecent (commentByAssignee assignees) timeline1))
        = afterLoop parseDate sevenDayCutoffTime fourteenDayCutoffTime
            (stampOf (mostRecent (assignedToAssignee assignees) timeline2))
            (stampOf (mostRecent (commentByAssignee assignees) timeline2))"
      by (rule afterLoop_cong) (rule mostRecent_time [OF assms(3,4) same])+
    then show ?thesis
      by (simp only: outdated_plain [OF p1] outdated_plain [OF p2])
  qed
qed

theorem chronological_order_independent_witness:
  "wellFormed sampleFindLinkedIssue (commentedAt ''alice'' ''2021-06-05T00:00:00Z'')
   \<and> wellFormed sampleFindLinkedIssue (assignedAt ''bob'' ''alice'' ''2021-06-05T00:00:00Z'')
   \<and> mset [commentedAt ''alice'' ''2021-06-05T00:00:00Z'',
            assignedAt ''bob'' ''alice'' ''2021-06-05T00:00:00Z'']
       = mset [assignedAt ''bob'' ''alice'' ''2021-06-05T00:00:00Z'',
               commentedAt ''alice'' ''2021-06-05T00:00:00Z'']
   \<and> chronological sampleDate
        [commentedAt ''alice'' ''2021-06-05T00:00:00Z'',
         assignedAt ''bob'' ''alice'' ''2021-06-05T00:00:00Z'']
   \<and> chronological sampleDate
        [assignedAt ''bob'' ''alice'' ''2021-06-05T00:00:00Z'',
         commentedAt ''alice'' ''2021-06-05T00:00:00Z'']
   \<and> isTimelineOutdated sampleFindLinkedIssue sampleDate
        (cutoffTime sampleNow commentByDays) (cutoffTime sampleNow inactiveUpdatedByDays)
        [commentedAt ''alice'' ''2021-06-05T00:00:00Z'',
         assignedAt ''bob'' ''alice'' ''2021-06-05T00:00:00Z'']
        ''42'' [''alice'']
     = isTimelineOutdated sampleFindLinkedIssue sampleDate
        (cutoffTime sampleNow commentByDays) (cutoffTime sampleNow inactiveUpdatedByDays)
        [assignedAt ''bob'' ''alice'' ''2021-06-05T00:00:00Z'',
         commentedAt ''alice'' ''2021-06-05T00:00:00Z'']
        ''42'' [''alice'']"
proof -
  let ?c = "commentedAt ''alice'' ''2021-06-05T00:00:00Z''"
  let ?a = "assignedAt ''bob'' ''alice'' ''2021-06-05T00:00:00Z''"
  have wf: "wellFormed sampleFindLinkedIssue ?c" "wellFormed sampleFindLinkedIssue ?a"
    by (simp_all add: wellFormed_def)
  then have all: "\<forall>e\<in>set [?c, ?a]. wellFormed sampleFindLinkedIssue e" by simp
  have perm: "mset [?c, ?a] = mset [?a, ?c]" by (simp add: add_mset_commute)
  have o1: "chronological sampleDate [?c, ?a]"
    by (simp add: observation_defs jsOr_def sampleDate_def)
  have o2: "chronological sampleDate [?a, ?c]"
    by (simp add: observation_defs jsOr_def sampleDate_def)
  from chronological_order_independent [OF all perm o1 o2] wf perm o1 o2
  show ?thesis by blast
qed

section \<open>Timestamps that do not parse\<close>

text \<open>
  C4, as stated, does not hold: nothing in the script validates a timestamp. The only
  assignee comment below carries a string that is no date; the function returns the
  response for an inactive issue.
\<close>

theorem malformed_timestamp_counterexample:
  "sampleDate ''not a date'' = None
   \<and> commentByAssignee [''alice''] (commentedAt ''alice'' ''not a date'')
   \<and> isTimelineOutdated sampleFindLinkedIssue sampleDate
        (cutoffTime sampleNow commentByDays) (cutoffTime sampleNow inactiveUpdatedByDays)
        [commentedAt ''alice'' ''not a date'']
        ''42'' [''alice''] = Inr \<lparr>result = True, labels = ''2 weeks inactive''\<rparr>"
  by (simp add: model_defs sample_defs label_defs commentByAssignee_def)

text \<open>
  C4, amended. A timestamp that does not parse is not an error. \<^verbatim>\<open>isMomentRecent\<close>
  answers false for it at both cutoffs; when it stands on the most recent comment of an
  assignee, in a timeline of well-formed events without a qualifying cross-reference, the
  function returns the response that the most recent assignment alone decides.
\<close>

theorem malformed_timestamp_not_recent:
  assumes "\<forall>e\<in>set timeline. wellFormed findLinkedIssue e
             \<and> \<not> linkedByAssignee findLinkedIssue issueNum assignees e"
    and "mostRecent (commentByAssignee assignees) timeline = Some c"
    and "timestampOf c = Some dateString"
    and "parseDate dateString = None"
  shows "\<not> isMomentRecent parseDate dateString sevenDayCutoffTime
       \<and> \<not> isMomentRecent parseDate dateString fourteenDayCutoffTime
       \<and> isTimelineOutdated findLinkedIssue parseDate sevenDayCutoffTime
           fourteenDayCutoffTime timeline issueNum assignees
         = Inr (afterLoop parseDate sevenDayCutoffTime fourteenDayCutoffTime
                  (stampOf (mostRecent (assignedToAssignee assignees) timeline)) None)"
proof -
  have never: "\<not> isMomentRecent parseDate dateString cutoff" for cutoff
    by (simp add: isMomentRecent_def assms(4))
  then have "recentStamp parseDate (stampOf (Some c)) cutoff
      = recentStamp parseDate None cutoff" for cutoff
    by (simp add: recentStamp_def stampOf_def assms(3))
  then have "afterLoop parseDate sevenDayCutoffTime fourteenDayCutoffTime
        (stampOf (mostRecent (assignedToAssignee assignees) timeline)) (stampOf (Some c))
      = afterLoop parseDate sevenDayCutoffTime fourteenDayCutoffTime
        (stampOf (mostRecent (assignedToAssignee assignees) timeline)) None"
    by (intro afterLoop_cong) simp_all
  with outdated_plain [OF assms(1), of parseDate sevenDayCutoffTime fourteenDayCutoffTime]
    never show ?thesis
    by (simp add: assms(2))
qed

theorem malformed_timestamp_not_recent_witness:
  "wellFormed sampleFindLinkedIssue (commentedAt ''alice'' ''not a date'')
   \<and> \<not> linkedByAssignee sampleFindLinkedIssue ''42'' [''alice'']
          (commentedAt ''alice'' ''not a date'')
   \<and> mostRecent (commentByAssignee [''alice'']) [commentedAt ''alice'' ''not a date'']
       = Some (commentedAt ''alice'' ''not a date'')
   \<and> timestampOf (commentedAt ''alice'' ''not a date'') = Some ''not a date''
   \<and> sampleDate ''not a date'' = None
   \<and> \<not> isMomentRecent sampleDate ''not a date'' (cutoffTime sampleNow commentByDays)
   \<and> \<not> isMomentRecent sampleDate ''not a date'' (cutoffTime sampleNow inactiveUpdatedByDays)
   \<and> isTimelineOutdated sampleFindLinkedIssue sampleDate
        (cutoffTime sampleNow commentByDays) (cutoffTime sampleNow inactiveUpdatedByDays)
        [commentedAt ''alice'' ''not a date''] ''42'' [''alice'']
       = Inr \<lparr>result = True, labels = ''2 weeks inactive''\<rparr>"
proof -
  let ?c = "commentedAt ''alice'' ''not a date''"
  have wf: "wellFormed sampleFindLinkedIssue ?c"
    and plain: "\<not> linkedByAssignee sampleFindLinkedIssue ''42'' [''alice''] ?c"
    by (simp_all add: wellFormed_def linkedByAssignee_def)
  then have all: "\<forall>e\<in>set [?c]. wellFormed sampleFindLinkedIssue e
      \<and> \<not> linkedByAssignee sampleFindLinkedIssue ''42'' [''alice''] e"
    by simp
  have last: "mostRecent (commentByAssignee [''alice'']) [?c] = Some ?c"
    by (simp add: mostRecent_def commentByAssignee_def timestampOf_def jsOr_def)
  have stamp: "timestampOf ?c = Some ''not a date''"
    by (simp add: timestampOf_def jsOr_def)
  have bad: "sampleDate ''not a date'' = None"
    by (simp add: sampleDate_def)
  have none: "mostRecent (assignedToAssignee [''alice'']) [?c] = None"
    by (simp add: mostRecent_def assignedToAssignee_def)
  from malformed_timestamp_not_recent [where parseDate = sampleDate
      and sevenDayCutoffTime = "cutoffTime sampleNow commentByDays"
      and fourteenDayCutoffTime = "cutoffTime sampleNow inactiveUpdatedByDays",
      OF all last stamp bad]
    wf plain last stamp bad
  show ?thesis
    by (simp add: none stampOf_def afterLoop_def recentStamp_def inactiveLabel_def)
qed

section \<open>The decisions after the loop\<close>

text \<open>
  The loop takes the comment and the assignment of an assignee that stand last in the
  timeline. In a timeline in chronological order these are the latest ones
  (\<open>latestTime_chronological\<close>), and the decisions are those of the claims; in another
  order they need not be.

  C5, as stated, does not hold for every timeline: below the latest comment of the
  assignee is 2 days old, but an older one stands after it, and the response is the one for
  an issue to update.
\<close>

theorem recent_comment_counterexample:
  "latestTime sampleDate (commentByAssignee [''alice''])
     [commentedAt ''alice'' ''2021-06-13T00:00:00Z'',
      commentedAt ''alice'' ''2021-06-05T00:00:00Z''] = Some 1623542400000
   \<and> cutoffTime sampleNow commentByDays \<le> 1623542400000
   \<and> \<not> linkedByAssignee sampleFindLinkedIssue ''42'' [''alice'']
         (commentedAt ''alice'' ''2021-06-13T00:00:00Z'')
   \<and> \<not> linkedByAssignee sampleFindLinkedIssue ''42'' [''alice'']
         (commentedAt ''alice'' ''2021-06-05T00:00:00Z'')
   \<and> isTimelineOutdated sampleFindLinkedIssue sampleDate
       (cutoffTime sampleNow commentByDays) (cutoffTime sampleNow inactiveUpdatedByDays)
       [commentedAt ''alice'' ''2021-06-13T00:00:00Z'',
        commentedAt ''alice'' ''2021-06-05T00:00:00Z''] ''42'' [''alice'']
     = Inr \<lparr>result = True, labels = ''To Update !''\<rparr>"
proof -
  have "latestTime sampleDate (commentByAssignee [''alice''])
     [commentedAt ''alice'' ''2021-06-13T00:00:00Z'',
      commentedAt ''alice'' ''2021-06-05T00:00:00Z''] = Some 1623542400000"
    by (simp add: observation_defs sampleDate_def)
  moreover have "cutoffTime sampleNow commentByDays \<le> 1623542400000"
    by (simp add: sample_defs)
  moreover have "\<not> linkedByAssignee sampleFindLinkedIssue ''42'' [''alice'']
         (commentedAt ''alice'' ''2021-06-13T00:00:00Z'')"
    "\<not> linkedByAssignee sampleFindLinkedIssue ''42'' [''alice'']
         (commentedAt ''alice'' ''2021-06-05T00:00:00Z'')"
    by (simp_all add: linkedByAssignee_def)
  moreover have "isTimelineOutdated sampleFindLinkedIssue sampleDate
       (cutoffTime sampleNow commentByDays) (cutoffTime sampleNow inactiveUpdatedByDays)
       [commentedAt ''alice'' ''2021-06-13T00:00:00Z'',
        commentedAt ''alice'' ''2021-06-05T00:00:00Z''] ''42'' [''alice'']
     = Inr \<lparr>result = True, labels = ''To Update !''\<rparr>"
    by (simp add: model_defs sample_defs label_defs)
  ultimately show ?thesis by blast
qed

text \<open>
  C5, amended. In a timeline of well-formed events in chronological order, without a
  qualifying cross-reference, when the latest comment of an assignee is within 7 days (its
  time is not before the seven-day cutoff), the response is
  \<^verbatim>\<open>{result: false, labels: 'Status: Updated'}\<close>. No hypothesis is made on the
  assignments: the rule is the first one applied after the loop.
\<close>

theorem recent_comment_updated:
  assumes "\<forall>e\<in>set timeline. wellFormed findLinkedIssue e
             \<and> \<not> linkedByAssignee findLinkedIssue issueNum assignees e"
    and "chronological parseDate timeline"
    and "latestTime parseDate (commentByAssignee assignees) timeline = Some t"
    and "sevenDayCutoffTime \<le> t"
  shows "isTimelineOutdated findLinkedIssue parseDate sevenDayCutoffTime
           fourteenDayCutoffTime timeline issueNum assignees
         = Inr \<lparr>result = False, labels = statusUpdatedLabel\<rparr>"
  using assms(3,4) by (simp add: outdated_chronological [OF assms(1,2)] onOrAfter_def)

theorem recent_comment_updated_witness:
  "wellFormed sampleFindLinkedIssue (commentedAt ''alice'' ''2021-06-05T00:00:00Z'')
   \<and> wellFormed sampleFindLinkedIssue (commentedAt ''alice'' ''2021-06-13T00:00:00Z'')
   \<and> \<not> linkedByAssignee sampleFindLinkedIssue ''42'' [''alice'']
          (commentedAt ''alice'' ''2021-06-05T00:00:00Z'')
   \<and> \<not> linkedByAssignee sampleFindLinkedIssue ''42'' [''alice'']
          (commentedAt ''alice'' ''2021-06-13T00:00:00Z'')
   \<and> chronological sampleDate
        [commentedAt ''alice'' ''2021-06-05T00:00:00Z'',
         commentedAt ''alice'' ''2021-06-13T00:00:00Z'']
   \<and> latestTime sampleDate (commentByAssignee [''alice''])
        [commentedAt ''alice'' ''2021-06-05T00:00:00Z'',
         commentedAt ''alice'' ''2021-06-13T00:00:00Z''] = Some 1623542400000
   \<and> cutoffTime sampleNow commentByDays \<le> 1623542400000
   \<and> isTimelineOutdated sampleFindLinkedIssue sampleDate
        (cutoffTime sampleNow commentByDays) (cutoffTime sampleNow inactiveUpdatedByDays)
        [commentedAt ''alice'' ''2021-06-05T00:00:00Z'',
         commentedAt ''alice'' ''2021-06-13T00:00:00Z''] ''42'' [''alice'']
       = Inr \<lparr>result = False, labels = ''Status: Updated''\<rparr>"
proof -
  let ?old = "commentedAt ''alice'' ''2021-06-05T00:00:00Z''"
  let ?new = "commentedAt ''alice'' ''2021-06-13T00:00:00Z''"
  have facts: "wellFormed sampleFindLinkedIssue ?old" "wellFormed sampleFindLinkedIssue ?new"
    "\<not> linkedByAssignee sampleFindLinkedIssue ''42'' [''alice''] ?old"
    "\<not> linkedByAssignee sampleFindLinkedIssue ''42'' [''alice''] ?new"
    by (simp_all add: wellFormed_def linkedByAssignee_def)
  then have all: "\<forall>e\<in>set [?old, ?new]. wellFormed sampleFindLinkedIssue e
      \<and> \<not> linkedByAssignee sampleFindLinkedIssue ''42'' [''alice''] e"
    by simp
  have ordered: "chronological sampleDate [?old, ?new]"
    by (simp add: observation_defs sampleDate_def)
  have latest: "latestTime sampleDate (commentByAssignee [''alice'']) [?old, ?new]
      = Some 1623542400000"
    by (simp add: observation_defs sampleDate_def)
  have recent: "cutoffTime sampleNow commentByDays \<le> 1623542400000"
    by (simp add: sample_defs)
  from recent_comment_updated [where fourteenDayCutoffTime
        = "cutoffTime sampleNow inactiveUpdatedByDays", OF all ordered latest recent]
    facts ordered latest recent
  show ?thesis by (simp add: statusUpdatedLabel_def)
qed

text \<open>
  C6, as stated, does not hold for every timeline: below there is no comment, the latest
  assignment of the assignee is 3 days old, but an older one stands after it, and the
  response is the one for an issue to update.
\<close>

theorem recent_assignment_counterexample:
  "latestTime sampleDate (commentByAssignee [''alice''])
     [assignedAt ''bob'' ''alice'' ''2021-06-12T00:00:00Z'',
      assignedAt ''bob'' ''alice'' ''2021-06-05T00:00:00Z''] = None
   \<and> latestTime sampleDate (assignedToAssignee [''alice''])
     [assignedAt ''bob'' ''alice'' ''2021-06-12T00:00:00Z'',
      assignedAt ''bob'' ''alice'' ''2021-06-05T00:00:00Z''] = Some 1623456000000
   \<and> cutoffTime sampleNow commentByDays \<le> 1623456000000
   \<and> \<not> linkedByAssignee sampleFindLinkedIssue ''42'' [''alice'']
         (assignedAt ''bob'' ''alice'' ''2021-06-12T00:00:00Z'')
   \<and> \<not> linkedByAssignee sampleFindLinkedIssue ''42'' [''alice'']
         (assignedAt ''bob'' ''alice'' ''2021-06-05T00:00:00Z'')
   \<and> isTimelineOutdated sampleFindLinkedIssue sampleDate
       (cutoffTime sampleNow commentByDays) (cutoffTime sampleNow inactiveUpdatedByDays)
       [assignedAt ''bob'' ''alice'' ''2021-06-12T00:00:00Z'',
        assignedAt ''bob'' ''alice'' ''2021-06-05T00:00:00Z''] ''42'' [''alice'']
     = Inr \<lparr>result = True, labels = ''To Update !''\<rparr>"
proof -
  have "latestTime sampleDate (commentByAssignee [''alice''])
     [assignedAt ''bob'' ''alice'' ''2021-06-12T00:00:00Z'',
      assignedAt ''bob'' ''alice'' ''2021-06-05T00:00:00Z''] = None"
    by (simp add: observation_defs sampleDate_def)
  moreover have "latestTime sampleDate (assignedToAssignee [''alice''])
     [assignedAt ''bob'' ''alice'' ''2021-06-12T00:00:00Z'',
      assignedAt ''bob'' ''alice'' ''2021-06-05T00:00:00Z''] = Some 1623456000000"
    by (simp add: observation_defs sampleDate_def)
  moreover have "cutoffTime sampleNow commentByDays \<le> 1623456000000"
    by (simp add: sample_defs)
  moreover have "\<not> linkedByAssignee sampleFindLinkedIssue ''42'' [''alice'']
         (assignedAt ''bob'' ''alice'' ''2021-06-12T00:00:00Z'')"
    "\<not> linkedByAssignee sampleFindLinkedIssue ''42'' [''alice'']
         (assignedAt ''bob'' ''alice'' ''2021-06-05T00:00:00Z'')"
    by (simp_all add: linkedByAssignee_def)
  moreover have "isTimelineOutdated sampleFindLinkedIssue sampleDate
       (cutoffTime sampleNow commentByDays) (cutoffTime sampleNow inactiveUpdatedByDays)
       [assignedAt ''bob'' ''alice'' ''2021-06-12T00:00:00Z'',
        assignedAt ''bob'' ''alice'' ''2021-06-05T00:00:00Z''] ''42'' [''alice'']
     = Inr \<lparr>result = True, labels = ''To Update !''\<rparr>"
    by (simp add: model_defs sample_defs label_defs)
  ultimately show ?thesis by blast
qed

text \<open>
  C6, amended. In a timeline of well-formed events in chronological order, without a
  qualifying cross-reference and without a comment of an assignee within 7 days, when the
  latest assignment of an assignee is within 7 days, the response is
  \<^verbatim>\<open>{result: false, labels: ''}\<close>, for which \<^verbatim>\<open>main\<close> removes the three status labels
  and sends nothing else.
\<close>

theorem recent_assignment_clears_labels:
  assumes "\<forall>e\<in>set timeline. wellFormed findLinkedIssue e
             \<and> \<not> linkedByAssignee findLinkedIssue issueNum assignees e"
    and "chronological parseDate timeline"
    and "\<not> onOrAfter (latestTime parseDate (commentByAssignee assignees) timeline)
             sevenDayCutoffTime"
    and "latestTime parseDate (assignedToAssignee assignees) timeline = Some t"
    and "sevenDayCutoffTime \<le> t"
  shows "isTimelineOutdated findLinkedIssue parseDate sevenDayCutoffTime
           fourteenDayCutoffTime timeline issueNum assignees
         = Inr \<lparr>result = False, labels = ''''\<rparr>
       \<and> dispatch formatComment issueNum assignees \<lparr>result = False, labels = ''''\<rparr>
         = [RemoveLabel issueNum toUpdateLabel, RemoveLabel issueNum inactiveLabel,
            RemoveLabel issueNum statusUpdatedLabel]
       \<and> mainIssue formatComment findLinkedIssue parseDate sevenDayCutoffTime
           fourteenDayCutoffTime issueNum assignees timeline
         = Inr [RemoveLabel issueNum toUpdateLabel, RemoveLabel issueNum inactiveLabel,
                RemoveLabel issueNum statusUpdatedLabel]"
proof -
  from assms(3,4,5)
  have run: "isTimelineOutdated findLinkedIssue parseDate sevenDayCutoffTime
      fourteenDayCutoffTime timeline issueNum assignees = Inr \<lparr>result = False, labels = ''''\<rparr>"
    by (simp add: outdated_chronological [OF assms(1,2)] onOrAfter_def)
  have requests: "dispatch formatComment issueNum assignees \<lparr>result = False, labels = ''''\<rparr>
      = [RemoveLabel issueNum toUpdateLabel, RemoveLabel issueNum inactiveLabel,
         RemoveLabel issueNum statusUpdatedLabel]"
    by (simp add: dispatch_def removeLabels_def statusUpdatedLabel_def)
  from assms(4) have "timesOf parseDate (assignedToAssignee assignees) timeline \<noteq> []"
    by (auto simp: latestTime_def)
  then have "set (timesOf parseDate (assignedToAssignee assignees) timeline) \<noteq> {}"
    by simp
  then have "assignees \<noteq> []"
    by (auto simp: set_timesOf assignedToAssignee_def split: option.splits)
  with run requests show ?thesis by (simp add: mainIssue_def)
qed

theorem recent_assignment_clears_labels_witness:
  "wellFormed sampleFindLinkedIssue (commentedAt ''alice'' ''2021-05-26T00:00:00Z'')
   \<and> wellFormed sampleFindLinkedIssue (assignedAt ''bob'' ''alice'' ''2021-06-12T00:00:00Z'')
   \<and> \<not> linkedByAssignee sampleFindLinkedIssue ''42'' [''alice'']
          (commentedAt ''alice'' ''2021-05-26T00:00:00Z'')
   \<and> \<not> linkedByAssignee sampleFindLinkedIssue ''42'' [''alice'']
          (assignedAt ''bob'' ''alice'' ''2021-06-12T00:00:00Z'')
   \<and> chronological sampleDate
        [commentedAt ''alice'' ''2021-05-26T00:00:00Z'',
         assignedAt ''bob'' ''alice'' ''2021-06-12T00:00:00Z'']
   \<and> \<not> onOrAfter (latestTime sampleDate (commentByAssignee [''alice''])
          [commentedAt ''alice'' ''2021-05-26T00:00:00Z'',
           assignedAt ''bob'' ''alice'' ''2021-06-12T00:00:00Z''])
          (cutoffTime sampleNow commentByDays)
   \<and> latestTime sampleDate (assignedToAssignee [''alice''])
        [commentedAt ''alice'' ''2021-05-26T00:00:00Z'',
         assignedAt ''bob'' ''alice'' ''2021-06-12T00:00:00Z''] = Some 1623456000000
   \<and> cutoffTime sampleNow commentByDays \<le> 1623456000000
   \<and> isTimelineOutdated sampleFindLinkedIssue sampleDate
        (cutoffTime sampleNow commentByDays) (cutoffTime sampleNow inactiveUpdatedByDays)
        [commentedAt ''alice'' ''2021-05-26T00:00:00Z'',
         assignedAt ''bob'' ''alice'' ''2021-06-12T00:00:00Z''] ''42'' [''alice'']
       = Inr \<lparr>result = False, labels = ''''\<rparr>
   \<and> mainIssue sampleFormatComment sampleFindLinkedIssue sampleDate
        (cutoffTime sampleNow commentByDays) (cutoffTime sampleNow inactiveUpdatedByDays)
        ''42'' [''alice'']
        [commentedAt ''alice'' ''2021-05-26T00:00:00Z'',
         assignedAt ''bob'' ''alice'' ''2021-06-12T00:00:00Z'']
       = Inr [RemoveLabel ''42'' ''To Update !'', RemoveLabel ''42'' ''2 weeks inactive'',
              RemoveLabel ''42'' ''Status: Updated'']"
proof -
  let ?c = "commentedAt ''alice'' ''2021-05-26T00:00:00Z''"
  let ?a = "assignedAt ''bob'' ''alice'' ''2021-06-12T00:00:00Z''"
  have facts: "wellFormed sampleFindLinkedIssue ?c" "wellFormed sampleFindLinkedIssue ?a"
    "\<not> linkedByAssignee sampleFindLinkedIssue ''42'' [''alice''] ?c"
    "\<not> linkedByAssignee sampleFindLinkedIssue ''42'' [''alice''] ?a"
    by (simp_all add: wellFormed_def linkedByAssignee_def)
  then have all: "\<forall>e\<in>set [?c, ?a]. wellFormed sampleFindLinkedIssue e
      \<and> \<not> linkedByAssignee sampleFindLinkedIssue ''42'' [''alice''] e"
    by simp
  have ordered: "chronological sampleDate [?c, ?a]"
    by (simp add: observation_defs sampleDate_def)
  have quiet: "\<not> onOrAfter (latestTime sampleDate (commentByAssignee [''alice'']) [?c, ?a])
      (cutoffTime sampleNow commentByDays)"
    by (simp add: observation_defs sample_defs)
  have latest: "latestTime sampleDate (assignedToAssignee [''alice'']) [?c, ?a]
      = Some 1623456000000"
    by (simp add: observation_defs sampleDate_def)
  have recent: "cutoffTime sampleNow commentByDays \<le> 1623456000000"
    by (simp add: sample_defs)
  from recent_assignment_clears_labels [where formatComment = sampleFormatComment
      and fourteenDayCutoffTime = "cutoffTime sampleNow inactiveUpdatedByDays",
      OF all ordered quiet latest recent]
    facts ordered quiet latest recent
  show ?thesis by (simp add: label_defs)
qed

text \<open>
  C7, as stated, does not hold for every timeline: below the latest comment of the
  assignee is 10 days old, so that neither seven-day rule matches and it is within 14 days,
  but an older comment stands after it, and the response is the one for an inactive issue.
\<close>

theorem within_fourteen_days_counterexample:
  "latestTime sampleDate (commentByAssignee [''alice''])
     [commentedAt ''alice'' ''2021-06-05T00:00:00Z'',
      commentedAt ''alice'' ''2021-05-26T00:00:00Z''] = Some 1622851200000
   \<and> latestTime sampleDate (assignedToAssignee [''alice''])
     [commentedAt ''alice'' ''2021-06-05T00:00:00Z'',
      commentedAt ''alice'' ''2021-05-26T00:00:00Z''] = None
   \<and> 1622851200000 < cutoffTime sampleNow commentByDays
   \<and> cutoffTime sampleNow inactiveUpdatedByDays \<le> 1622851200000
   \<and> \<not> linkedByAssignee sampleFindLinkedIssue ''42'' [''alice'']
         (commentedAt ''alice'' ''2021-06-05T00:00:00Z'')
   \<and> \<not> linkedByAssignee sampleFindLinkedIssue ''42'' [''alice'']
         (commentedAt ''alice'' ''2021-05-26T00:00:00Z'')
   \<and> isTimelineOutdated sampleFindLinkedIssue sampleDate
       (cutoffTime sampleNow commentByDays) (cutoffTime sampleNow inactiveUpdatedByDays)
       [commentedAt ''alice'' ''2021-06-05T00:00:00Z'',
        commentedAt ''alice'' ''2021-05-26T00:00:00Z''] ''42'' [''alice'']
     = Inr \<lparr>result = True, labels = ''2 weeks inactive''\<rparr>"
proof -
  have "latestTime sampleDate (commentByAssignee [''alice''])
     [commentedAt ''alice'' ''2021-06-05T00:00:00Z'',
      commentedAt ''alice'' ''2021-05-26T00:00:00Z''] = Some 1622851200000"
    by (simp add: observation_defs sampleDate_def)
  moreover have "latestTime sampleDate (assignedToAssignee [''alice''])
     [commentedAt ''alice'' ''2021-06-05T00:00:00Z'',
      commentedAt ''alice'' ''2021-05-26T00:00:00Z''] = None"
    by (simp add: observation_defs sampleDate_def)
  moreover have "1622851200000 < cutoffTime sampleNow commentByDays"
    "cutoffTime sampleNow inactiveUpdatedByDays \<le> 1622851200000"
    by (simp_all add: sample_defs)
  moreover have "\<not> linkedByAssignee sampleFindLinkedIssue ''42'' [''alice'']
         (commentedAt ''alice'' ''2021-06-05T00:00:00Z'')"
    "\<not> linkedByAssignee sampleFindLinkedIssue ''42'' [''alice'']
         (commentedAt ''alice'' ''2021-05-26T00:00:00Z'')"
    by (simp_all add: linkedByAssignee_def)
  moreover have "isTimelineOutdated sampleFindLinkedIssue sampleDate
       (cutoffTime sampleNow commentByDays) (cutoffTime sampleNow inactiveUpdatedByDays)
       [commentedAt ''alice'' ''2021-06-05T00:00:00Z'',
        commentedAt ''alice'' ''2021-05-26T00:00:00Z''] ''42'' [''alice'']
     = Inr \<lparr>result = True, labels = ''2 weeks inactive''\<rparr>"
    by (simp add: model_defs sample_defs label_defs)
  ultimately show ?thesis by blast
qed

text \<open>
  C7, amended. In a timeline of well-formed events in chronological order, without a
  qualifying cross-reference, when neither the latest comment nor the latest assignment of
  an assignee is within 7 days and one of the two is within 14 days, the response is
  \<^verbatim>\<open>{result: true, labels: 'To Update !'}\<close>.
\<close>

theorem within_fourteen_days_to_update:
  assumes "\<forall>e\<in>set timeline. wellFormed findLinkedIssue e
             \<and> \<not> linkedByAssignee findLinkedIssue issueNum assignees e"
    and "chronological parseDate timeline"
    and "\<not> onOrAfter (latestTime parseDate (commentByAssignee assignees) timeline)
             sevenDayCutoffTime"
    and "\<not> onOrAfter (latestTime parseDate (assignedToAssignee assignees) timeline)
             sevenDayCutoffTime"
    and "onOrAfter (latestTime parseDate (commentByAssignee assignees) timeline)
           fourteenDayCutoffTime
         \<or> onOrAfter (latestTime parseDate (assignedToAssignee assignees) timeline)
             fourteenDayCutoffTime"
  shows "isTimelineOutdated findLinkedIssue parseDate sevenDayCutoffTime
           fourteenDayCutoffTime timeline issueNum assignees
         = Inr \<lparr>result = True, labels = toUpdateLabel\<rparr>"
  using assms(3,4,5) by (simp add: outdated_chronological [OF assms(1,2)])

theorem within_fourteen_days_to_update_witness:
  "wellFormed sampleFindLinkedIssue (commentedAt ''alice'' ''2021-05-26T00:00:00Z'')
   \<and> wellFormed sampleFindLinkedIssue (commentedAt ''alice'' ''2021-06-05T00:00:00Z'')
   \<and> \<not> linkedByAssignee sampleFindLinkedIssue ''42'' [''alice'']
          (commentedAt ''alice'' ''2021-05-26T00:00:00Z'')
   \<and> \<not> linkedByAssignee sampleFindLinkedIssue ''42'' [''alice'']
          (commentedAt ''alice'' ''2021-06-05T00:00:00Z'')
   \<and> chronological sampleDate
        [commentedAt ''alice'' ''2021-05-26T00:00:00Z'',
         commentedAt ''alice'' ''2021-06-05T00:00:00Z'']
   \<and> \<not> onOrAfter (latestTime sampleDate (commentByAssignee [''alice''])
          [commentedAt ''alice'' ''2021-05-26T00:00:00Z'',
           commentedAt ''alice'' ''2021-06-05T00:00:00Z''])
          (cutoffTime sampleNow commentByDays)
   \<and> \<not> onOrAfter (latestTime sampleDate (assignedToAssignee [''alice''])
          [commentedAt ''alice'' ''2021-05-26T00:00:00Z'',
           commentedAt ''alice'' ''2021-06-05T00:00:00Z''])
          (cutoffTime sampleNow commentByDays)
   \<and> onOrAfter (latestTime sampleDate (commentByAssignee [''alice''])
        [commentedAt ''alice'' ''2021-05-26T00:00:00Z'',
         commentedAt ''alice'' ''2021-06-05T00:00:00Z''])
        (cutoffTime sampleNow inactiveUpdatedByDays)
   \<and> isTimelineOutdated sampleFindLinkedIssue sampleDate
        (cutoffTime sampleNow commentByDays) (cutoffTime sampleNow inactiveUpdatedByDays)
        [commentedAt ''alice'' ''2021-05-26T00:00:00Z'',
         commentedAt ''alice'' ''2021-06-05T00:00:00Z''] ''42'' [''alice'']
       = Inr \<lparr>result = True, labels = ''To Update !''\<rparr>"
proof -
  let ?old = "commentedAt ''alice'' ''2021-05-26T00:00:00Z''"
  let ?new = "commentedAt ''alice'' ''2021-06-05T00:00:00Z''"
  have facts: "wellFormed sampleFindLinkedIssue ?old" "wellFormed sampleFindLinkedIssue ?new"
    "\<not> linkedByAssignee sampleFindLinkedIssue ''42'' [''alice''] ?old"
    "\<not> linkedByAssignee sampleFindLinkedIssue ''42'' [''alice''] ?new"
    by (simp_all add: wellFormed_def linkedByAssignee_def)
  then have all: "\<forall>e\<in>set [?old, ?new]. wellFormed sampleFindLinkedIssue e
      \<and> \<not> linkedByAssignee sampleFindLinkedIssue ''42'' [''alice''] e"
    by simp
  have ordered: "chronological sampleDate [?old, ?new]"
    by (simp add: observation_defs sampleDate_def)
  have c7: "\<not> onOrAfter (latestTime sampleDate (commentByAssignee [''alice'']) [?old, ?new])
      (cutoffTime sampleNow commentByDays)"
    by (simp add: observation_defs sample_defs)
  have a7: "\<not> onOrAfter (latestTime sampleDate (assignedToAssignee [''alice'']) [?old, ?new])
      (cutoffTime sampleNow commentByDays)"
    by (simp add: observation_defs sample_defs)
  have c14: "onOrAfter (latestTime sampleDate (commentByAssignee [''alice'']) [?old, ?new])
      (cutoffTime sampleNow inactiveUpdatedByDays)"
    by (simp add: observation_defs sample_defs)
  then have either:
    "onOrAfter (latestTime sampleDate (commentByAssignee [''alice'']) [?old, ?new])
      (cutoffTime sampleNow inactiveUpdatedByDays)
     \<or> onOrAfter (latestTime sampleDate (assignedToAssignee [''alice'']) [?old, ?new])
      (cutoffTime sampleNow inactiveUpdatedByDays)" ..
  from within_fourteen_days_to_update [OF all ordered c7 a7 either] facts ordered c7 a7 c14
  show ?thesis by (simp add: toUpdateLabel_def)
qed

text \<open>
  C8. A timeline without a qualifying cross-reference, without a comment of an assignee and
  without an assignment of an assignee, the empty timeline among them, gets the response
  \<^verbatim>\<open>{result: true, labels: '2 weeks inactive'}\<close>.
\<close>

theorem no_activity_inactive:
  assumes "\<forall>e\<in>set timeline. wellFormed findLinkedIssue e
             \<and> \<not> linkedByAssignee findLinkedIssue issueNum assignees e
             \<and> \<not> commentByAssignee assignees e
             \<and> \<not> assignedToAssignee assignees e"
  shows "isTimelineOutdated findLinkedIssue parseDate sevenDayCutoffTime
           fourteenDayCutoffTime timeline issueNum assignees
         = Inr \<lparr>result = True, labels = inactiveLabel\<rparr>"
proof -
  from assms have plain: "\<forall>e\<in>set timeline. wellFormed findLinkedIssue e
      \<and> \<not> linkedByAssignee findLinkedIssue issueNum assignees e"
    by simp
  from assms have "mostRecent (commentByAssignee assignees) timeline = None"
    and "mostRecent (assignedToAssignee assignees) timeline = None"
    by (simp_all add: mostRecent_None)
  then show ?thesis
    by (simp add: outdated_plain [OF plain] afterLoop_def stampOf_def recentStamp_def)
qed

theorem no_activity_inactive_witness:
  "wellFormed sampleFindLinkedIssue (commentedAt ''bob'' ''2021-06-13T00:00:00Z'')
   \<and> \<not> linkedByAssignee sampleFindLinkedIssue ''42'' [''alice'']
          (commentedAt ''bob'' ''2021-06-13T00:00:00Z'')
   \<and> \<not> commentByAssignee [''alice''] (commentedAt ''bob'' ''2021-06-13T00:00:00Z'')
   \<and> \<not> assignedToAssignee [''alice''] (commentedAt ''bob'' ''2021-06-13T00:00:00Z'')
   \<and> isTimelineOutdated sampleFindLinkedIssue sampleDate
        (cutoffTime sampleNow commentByDays) (cutoffTime sampleNow inactiveUpdatedByDays)
        [commentedAt ''bob'' ''2021-06-13T00:00:00Z''] ''42'' [''alice'']
       = Inr \<lparr>result = True, labels = ''2 weeks inactive''\<rparr>
   \<and> isTimelineOutdated sampleFindLinkedIssue sampleDate
        (cutoffTime sampleNow commentByDays) (cutoffTime sampleNow inactiveUpdatedByDays)
        [] ''42'' [''alice'']
       = Inr \<lparr>result = True, labels = ''2 weeks inactive''\<rparr>"
proof -
  let ?c = "commentedAt ''bob'' ''2021-06-13T00:00:00Z''"
  have facts: "wellFormed sampleFindLinkedIssue ?c"
    "\<not> linkedByAssignee sampleFindLinkedIssue ''42'' [''alice''] ?c"
    "\<not> commentByAssignee [''alice''] ?c"
    "\<not> assignedToAssignee [''alice''] ?c"
    by (simp_all add: wellFormed_def linkedByAssignee_def commentByAssignee_def
        assignedToAssignee_def)
  then have all: "\<forall>e\<in>set [?c]. wellFormed sampleFindLinkedIssue e
      \<and> \<not> linkedByAssignee sampleFindLinkedIssue ''42'' [''alice''] e
      \<and> \<not> commentByAssignee [''alice''] e
      \<and> \<not> assignedToAssignee [''alice''] e"
    by simp
  have none: "\<forall>e\<in>set []. wellFormed sampleFindLinkedIssue e
      \<and> \<not> linkedByAssignee sampleFindLinkedIssue ''42'' [''alice''] e
      \<and> \<not> commentByAssignee [''alice''] e
      \<and> \<not> assignedToAssignee [''alice''] e"
    by simp
  from no_activity_inactive [OF all] no_activity_inactive [OF none] facts
  show ?thesis by (simp add: inactiveLabel_def)
qed

text \<open>
  C9, as stated, does not hold for every timeline: below the latest comment of the
  assignee is exactly at the seven-day cutoff, but an older one stands after it, and the
  response is the one for an inactive issue.
\<close>

theorem seven_day_boundary_counterexample:
  "latestTime sampleDate (commentByAssignee [''alice''])
     [commentedAt ''alice'' ''2021-06-08T00:00:00Z'',
      commentedAt ''alice'' ''2021-05-26T00:00:00Z'']
     = Some (cutoffTime sampleNow commentByDays)
   \<and> \<not> linkedByAssignee sampleFindLinkedIssue ''42'' [''alice'']
         (commentedAt ''alice'' ''2021-06-08T00:00:00Z'')
   \<and> \<not> linkedByAssignee sampleFindLinkedIssue ''42'' [''alice'']
         (commentedAt ''alice'' ''2021-05-26T00:00:00Z'')
   \<and> isTimelineOutdated sampleFindLinkedIssue sampleDate
       (cutoffTime sampleNow commentByDays) (cutoffTime sampleNow inactiveUpdatedByDays)
       [commentedAt ''alice'' ''2021-06-08T00:00:00Z'',
        commentedAt ''alice'' ''2021-05-26T00:00:00Z''] ''42'' [''alice'']
     = Inr \<lparr>result = True, labels = ''2 weeks inactive''\<rparr>"
proof -
  have "latestTime sampleDate (commentByAssignee [''alice''])
     [commentedAt ''alice'' ''2021-06-08T00:00:00Z'',
      commentedAt ''alice'' ''2021-05-26T00:00:00Z'']
     = Some (cutoffTime sampleNow commentByDays)"
    by (simp add: observation_defs sample_defs)
  moreover have "\<not> linkedByAssignee sampleFindLinkedIssue ''42'' [''alice'']
         (commentedAt ''alice'' ''2021-06-08T00:00:00Z'')"
    "\<not> linkedByAssignee sampleFindLinkedIssue ''42'' [''alice'']
         (commentedAt ''alice'' ''2021-05-26T00:00:00Z'')"
    by (simp_all add: linkedByAssignee_def)
  moreover have "isTimelineOutdated sampleFindLinkedIssue sampleDate
       (cutoffTime sampleNow commentByDays) (cutoffTime sampleNow inactiveUpdatedByDays)
       [commentedAt ''alice'' ''2021-06-08T00:00:00Z'',
        commentedAt ''alice'' ''2021-05-26T00:00:00Z''] ''42'' [''alice'']
     = Inr \<lparr>result = True, labels = ''2 weeks inactive''\<rparr>"
    by (simp add: model_defs sample_defs label_defs)
  ultimately show ?thesis by blast
qed

text \<open>
  C9, amended. The comparison with the cutoff is \<^verbatim>\<open>>=\<close>: in a timeline of well-formed
  events in chronological order, without a qualifying cross-reference, a latest comment of
  an assignee whose time is the seven-day cutoff itself, 7 days before the load time, still
  counts as recent, and the response is \<^verbatim>\<open>{result: false, labels: 'Status: Updated'}\<close>.
\<close>

theorem seven_day_boundary_inclusive:
  assumes "\<forall>e\<in>set timeline. wellFormed findLinkedIssue e
             \<and> \<not> linkedByAssignee findLinkedIssue issueNum assignees e"
    and "chronological parseDate timeline"
    and "latestTime parseDate (commentByAssignee assignees) timeline
           = Some (cutoffTime now commentByDays)"
  shows "isTimelineOutdated findLinkedIssue parseDate (cutoffTime now commentByDays)
           fourteenDayCutoffTime timeline issueNum assignees
         = Inr \<lparr>result = False, labels = statusUpdatedLabel\<rparr>"
  using assms(3) by (simp add: outdated_chronological [OF assms(1,2)] onOrAfter_def)

theorem seven_day_boundary_inclusive_witness:
  "wellFormed sampleFindLinkedIssue (commentedAt ''alice'' ''2021-05-26T00:00:00Z'')
   \<and> wellFormed sampleFindLinkedIssue (commentedAt ''alice'' ''2021-06-08T00:00:00Z'')
   \<and> \<not> linkedByAssignee sampleFindLinkedIssue ''42'' [''alice'']
          (commentedAt ''alice'' ''2021-05-26T00:00:00Z'')
   \<and> \<not> linkedByAssignee sampleFindLinkedIssue ''42'' [''alice'']
          (commentedAt ''alice'' ''2021-06-08T00:00:00Z'')
   \<and> chronological sampleDate
        [commentedAt ''alice'' ''2021-05-26T00:00:00Z'',
         commentedAt ''alice'' ''2021-06-08T00:00:00Z'']
   \<and> latestTime sampleDate (commentByAssignee [''alice''])
        [commentedAt ''alice'' ''2021-05-26T00:00:00Z'',
         commentedAt ''alice'' ''2021-06-08T00:00:00Z'']
       = Some (cutoffTime sampleNow commentByDays)
   \<and> isTimelineOutdated sampleFindLinkedIssue sampleDate
        (cutoffTime sampleNow commentByDays) (cutoffTime sampleNow inactiveUpdatedByDays)
        [commentedAt ''alice'' ''2021-05-26T00:00:00Z'',
         commentedAt ''alice'' ''2021-06-08T00:00:00Z''] ''42'' [''alice'']
       = Inr \<lparr>result = False, labels = ''Status: Updated''\<rparr>"
proof -
  let ?old = "commentedAt ''alice'' ''2021-05-26T00:00:00Z''"
  let ?edge = "commentedAt ''alice'' ''2021-06-08T00:00:00Z''"
  have facts: "wellFormed sampleFindLinkedIssue ?old" "wellFormed sampleFindLinkedIssue ?edge"
    "\<not> linkedByAssignee sampleFindLinkedIssue ''42'' [''alice''] ?old"
    "\<not> linkedByAssignee sampleFindLinkedIssue ''42'' [''alice''] ?edge"
    by (simp_all add: wellFormed_def linkedByAssignee_def)
  then have all: "\<forall>e\<in>set [?old, ?edge]. wellFormed sampleFindLinkedIssue e
      \<and> \<not> linkedByAssignee sampleFindLinkedIssue ''42'' [''alice''] e"
    by simp
  have ordered: "chronological sampleDate [?old, ?edge]"
    by (simp add: observation_defs sampleDate_def)
  have latest: "latestTime sampleDate (commentByAssignee [''alice'']) [?old, ?edge]
      = Some (cutoffTime sampleNow commentByDays)"
    by (simp add: observation_defs sample_defs)
  from seven_day_boundary_inclusive [where fourteenDayCutoffTime
        = "cutoffTime sampleNow inactiveUpdatedByDays", OF all ordered latest]
    facts ordered latest
  show ?thesis by (simp add: statusUpdatedLabel_def)
qed

section \<open>The timestamp of an event\<close>

text \<open>
  C10, as stated, does not hold: an edit counts only on the comment the loop keeps, the
  last one of an assignee. Below, in the order of creation, the first comment was created
  20 days ago and edited 2 days ago, a second was created 10 days ago, and the response is
  the one for an issue to update.
\<close>

theorem edited_comment_counterexample:
  "\<not> isMomentRecent sampleDate ''2021-05-26T00:00:00Z'' (cutoffTime sampleNow commentByDays)
   \<and> isMomentRecent sampleDate ''2021-06-13T00:00:00Z'' (cutoffTime sampleNow commentByDays)
   \<and> commentByAssignee [''alice'']
       \<lparr>event = ''commented'', actor = Some ''alice'', assignee = None, source = None,
        updated_at = Some ''2021-06-13T00:00:00Z'',
        created_at = Some ''2021-05-26T00:00:00Z''\<rparr>
   \<and> isTimelineOutdated sampleFindLinkedIssue sampleDate
       (cutoffTime sampleNow commentByDays) (cutoffTime sampleNow inactiveUpdatedByDays)
       [\<lparr>event = ''commented'', actor = Some ''alice'', assignee = None, source = None,
         updated_at = Some ''2021-06-13T00:00:00Z'',
         created_at = Some ''2021-05-26T00:00:00Z''\<rparr>,
        commentedAt ''alice'' ''2021-06-05T00:00:00Z''] ''42'' [''alice'']
     = Inr \<lparr>result = True, labels = ''To Update !''\<rparr>"
  by (simp add: model_defs sample_defs label_defs commentByAssignee_def)

text \<open>
  C10, amended. In every pass of the loop over a well-formed event that is no qualifying
  cross-reference, the timestamp stored for a comment or an assignment of an assignee is
  \<^verbatim>\<open>updated_at\<close> when that is there (a non-empty string), and \<^verbatim>\<open>created_at\<close> only
  when it is not. For the last comment of an assignee in a timeline of such events: if it
  was edited within 7 days the response is \<^verbatim>\<open>{result: false, labels: 'Status: Updated'}\<close>,
  whenever it was created; if it was never edited, the time of creation decides; and if it
  was edited, but not within 7 days, the response is not that one, whatever the time of
  creation is.
\<close>

theorem last_comment_edit_decides:
  assumes "\<forall>e\<in>set timeline. wellFormed findLinkedIssue e
             \<and> \<not> linkedByAssignee findLinkedIssue issueNum assignees e"
    and "timeline = before @ c # after"
    and "commentByAssignee assignees c"
    and "\<forall>x\<in>set after. \<not> commentByAssignee assignees x"
  shows "(\<forall>e isFirst lastAssigned lastComment.
            wellFormed findLinkedIssue e
              \<and> \<not> linkedByAssignee findLinkedIssue issueNum assignees e
            \<longrightarrow> loopBody findLinkedIssue issueNum assignees isFirst e lastAssigned lastComment
                 = Continues
                     (if assignedToAssignee assignees e \<and> \<not> truthy lastAssigned
                      then (case updated_at e of
                              None \<Rightarrow> created_at e
                            | Some edited \<Rightarrow> (if edited = [] then created_at e else Some edited))
                      else lastAssigned)
                     (if commentByAssignee assignees e \<and> \<not> truthy lastComment
                      then (case updated_at e of
                              None \<Rightarrow> created_at e
                            | Some edited \<Rightarrow> (if edited = [] then created_at e else Some edited))
                      else lastComment))
       \<and> (\<forall>edited. updated_at c = Some edited \<and> edited \<noteq> []
              \<and> isMomentRecent parseDate edited sevenDayCutoffTime
            \<longrightarrow> isTimelineOutdated findLinkedIssue parseDate sevenDayCutoffTime
                   fourteenDayCutoffTime timeline issueNum assignees
                 = Inr \<lparr>result = False, labels = statusUpdatedLabel\<rparr>)
       \<and> (\<forall>created. \<not> truthy (updated_at c) \<and> created_at c = Some created \<and> created \<noteq> []
              \<and> isMomentRecent parseDate created sevenDayCutoffTime
            \<longrightarrow> isTimelineOutdated findLinkedIssue parseDate sevenDayCutoffTime
                   fourteenDayCutoffTime timeline issueNum assignees
                 = Inr \<lparr>result = False, labels = statusUpdatedLabel\<rparr>)
       \<and> (\<forall>edited. updated_at c = Some edited \<and> edited \<noteq> []
              \<and> \<not> isMomentRecent parseDate edited sevenDayCutoffTime
            \<longrightarrow> isTimelineOutdated findLinkedIssue parseDate sevenDayCutoffTime
                   fourteenDayCutoffTime timeline issueNum assignees
                 \<noteq> Inr \<lparr>result = False, labels = statusUpdatedLabel\<rparr>)"
proof -
  have run: "isTimelineOutdated findLinkedIssue parseDate sevenDayCutoffTime
      fourteenDayCutoffTime timeline issueNum assignees
      = Inr (afterLoop parseDate sevenDayCutoffTime fourteenDayCutoffTime
               (stampOf (mostRecent (assignedToAssignee assignees) timeline)) (Some s))"
    if "timestampOf c = Some s" "s \<noteq> []" for s
  proof -
    from that have "truthy (timestampOf c)" by simp
    from mostRecent_last [OF assms(2,3) this assms(4)] that(1) show ?thesis
      by (simp add: outdated_plain [OF assms(1)] stampOf_def)
  qed
  have edited: "isTimelineOutdated findLinkedIssue parseDate sevenDayCutoffTime
      fourteenDayCutoffTime timeline issueNum assignees
      = Inr \<lparr>result = False, labels = statusUpdatedLabel\<rparr>"
    if "updated_at c = Some u" "u \<noteq> []" "isMomentRecent parseDate u sevenDayCutoffTime" for u
  proof -
    from that(1,2) have "timestampOf c = Some u" by (simp add: timestampOf_def)
    from run [OF this that(2)] that(2,3) show ?thesis
      by (simp add: afterLoop_def recentStamp_def)
  qed
  have created: "isTimelineOutdated findLinkedIssue parseDate sevenDayCutoffTime
      fourteenDayCutoffTime timeline issueNum assignees
      = Inr \<lparr>result = False, labels = statusUpdatedLabel\<rparr>"
    if "\<not> truthy (updated_at c)" "created_at c = Some s" "s \<noteq> []"
      "isMomentRecent parseDate s sevenDayCutoffTime" for s
  proof -
    from that(1,2) have "timestampOf c = Some s"
      by (cases "updated_at c") (simp_all add: timestampOf_def)
    from run [OF this that(3)] that(3,4) show ?thesis
      by (simp add: afterLoop_def recentStamp_def)
  qed
  have stale: "isTimelineOutdated findLinkedIssue parseDate sevenDayCutoffTime
      fourteenDayCutoffTime timeline issueNum assignees
      \<noteq> Inr \<lparr>result = False, labels = statusUpdatedLabel\<rparr>"
    if "updated_at c = Some u" "u \<noteq> []" "\<not> isMomentRecent parseDate u sevenDayCutoffTime" for u
  proof -
    from that(1,2) have "timestampOf c = Some u" by (simp add: timestampOf_def)
    from run [OF this that(2)] that(2,3) show ?thesis
      by (simp add: afterLoop_def recentStamp_def label_defs)
  qed
  have body: "loopBody findLinkedIssue issueNum assignees isFirst e lastAssigned lastComment
      = Continues
          (if assignedToAssignee assignees e \<and> \<not> truthy lastAssigned
           then (case updated_at e of
                   None \<Rightarrow> created_at e
                 | Some edited \<Rightarrow> (if edited = [] then created_at e else Some edited))
           else lastAssigned)
          (if commentByAssignee assignees e \<and> \<not> truthy lastComment
           then (case updated_at e of
                   None \<Rightarrow> created_at e
                 | Some edited \<Rightarrow> (if edited = [] then created_at e else Some edited))
           else lastComment)"
    if "wellFormed findLinkedIssue e"
      "\<not> linkedByAssignee findLinkedIssue issueNum assignees e"
    for e isFirst lastAssigned lastComment
    using loopBody_plain [OF that] by (simp only: timestampOf_def)
  from body edited created stale show ?thesis by blast
qed

theorem last_comment_edit_decides_witness:
  "loopBody sampleFindLinkedIssue ''42'' [''alice''] True
     \<lparr>event = ''assigned'', actor = Some ''bob'', assignee = Some ''alice'', source = None,
      updated_at = Some ''2021-06-13T00:00:00Z'', created_at = Some ''2021-05-26T00:00:00Z''\<rparr>
     None None = Continues (Some ''2021-06-13T00:00:00Z'') None
   \<and> loopBody sampleFindLinkedIssue ''42'' [''alice''] True
     (assignedAt ''bob'' ''alice'' ''2021-05-26T00:00:00Z'')
     None None = Continues (Some ''2021-05-26T00:00:00Z'') None
   \<and> isMomentRecent sampleDate ''2021-06-13T00:00:00Z'' (cutoffTime sampleNow commentByDays)
   \<and> \<not> isMomentRecent sampleDate ''2021-06-05T00:00:00Z'' (cutoffTime sampleNow commentByDays)
   \<and> \<not> isMomentRecent sampleDate ''2021-05-26T00:00:00Z'' (cutoffTime sampleNow commentByDays)
   \<and> isTimelineOutdated sampleFindLinkedIssue sampleDate
        (cutoffTime sampleNow commentByDays) (cutoffTime sampleNow inactiveUpdatedByDays)
        [commentedAt ''alice'' ''2021-06-05T00:00:00Z'',
         \<lparr>event = ''commented'', actor = Some ''alice'', assignee = None, source = None,
          updated_at = Some ''2021-06-13T00:00:00Z'',
          created_at = Some ''2021-05-26T00:00:00Z''\<rparr>]
        ''42'' [''alice'']
       = Inr \<lparr>result = False, labels = ''Status: Updated''\<rparr>
   \<and> isTimelineOutdated sampleFindLinkedIssue sampleDate
        (cutoffTime sampleNow commentByDays) (cutoffTime sampleNow inactiveUpdatedByDays)
        [commentedAt ''alice'' ''2021-06-05T00:00:00Z'',
         commentedAt ''alice'' ''2021-06-13T00:00:00Z'']
        ''42'' [''alice'']
       = Inr \<lparr>result = False, labels = ''Status: Updated''\<rparr>
   \<and> isTimelineOutdated sampleFindLinkedIssue sampleDate
        (cutoffTime sampleNow commentByDays) (cutoffTime sampleNow inactiveUpdatedByDays)
        [\<lparr>event = ''commented'', actor = Some ''alice'', assignee = None, source = None,
          updated_at = Some ''2021-06-05T00:00:00Z'',
          created_at = Some ''2021-06-13T00:00:00Z''\<rparr>]
        ''42'' [''alice'']
       \<noteq> Inr \<lparr>result = False, labels = ''Status: Updated''\<rparr>"
proof -
  let ?first = "commentedAt ''alice'' ''2021-06-05T00:00:00Z''"
  let ?edited = "\<lparr>event = ''commented'', actor = Some ''alice'', assignee = None,
      source = None, updated_at = Some ''2021-06-13T00:00:00Z'',
      created_at = Some ''2021-05-26T00:00:00Z''\<rparr>"
  let ?plain = "commentedAt ''alice'' ''2021-06-13T00:00:00Z''"
  let ?stale = "\<lparr>event = ''commented'', actor = Some ''alice'', assignee = None,
      source = None, updated_at = Some ''2021-06-05T00:00:00Z'',
      created_at = Some ''2021-06-13T00:00:00Z''\<rparr>"
  have new: "isMomentRecent sampleDate ''2021-06-13T00:00:00Z''
      (cutoffTime sampleNow commentByDays)"
    and mid: "\<not> isMomentRecent sampleDate ''2021-06-05T00:00:00Z''
      (cutoffTime sampleNow commentByDays)"
    and old: "\<not> isMomentRecent sampleDate ''2021-05-26T00:00:00Z''
      (cutoffTime sampleNow commentByDays)"
    by (simp_all add: isMomentRecent_def sample_defs)
  have wf: "wellFormed sampleFindLinkedIssue e
      \<and> \<not> linkedByAssignee sampleFindLinkedIssue ''42'' [''alice''] e"
    if "event e = ''commented''" "actor e \<noteq> None" for e
    using that by (simp add: wellFormed_def linkedByAssignee_def)
  have all1: "\<forall>e\<in>set [?first, ?edited]. wellFormed sampleFindLinkedIssue e
      \<and> \<not> linkedByAssignee sampleFindLinkedIssue ''42'' [''alice''] e"
    and all2: "\<forall>e\<in>set [?first, ?plain]. wellFormed sampleFindLinkedIssue e
      \<and> \<not> linkedByAssignee sampleFindLinkedIssue ''42'' [''alice''] e"
    and all3: "\<forall>e\<in>set [?stale]. wellFormed sampleFindLinkedIssue e
      \<and> \<not> linkedByAssignee sampleFindLinkedIssue ''42'' [''alice''] e"
    by (simp_all add: wf)
  have shape1: "[?first, ?edited] = [?first] @ ?edited # []"
    and shape2: "[?first, ?plain] = [?first] @ ?plain # []"
    and shape3: "[?stale] = [] @ ?stale # []"
    by simp_all
  have kind: "commentByAssignee [''alice''] ?edited" "commentByAssignee [''alice''] ?plain"
    "commentByAssignee [''alice''] ?stale"
    by (simp_all add: commentByAssignee_def)
  have none: "\<forall>x\<in>set []. \<not> commentByAssignee [''alice''] x" by simp
  note t1 = last_comment_edit_decides [where parseDate = sampleDate
      and sevenDayCutoffTime = "cutoffTime sampleNow commentByDays"
      and fourteenDayCutoffTime = "cutoffTime sampleNow inactiveUpdatedByDays",
      OF all1 shape1 kind(1) none]
  note t2 = last_comment_edit_decides [where parseDate = sampleDate
      and sevenDayCutoffTime = "cutoffTime sampleNow commentByDays"
      and fourteenDayCutoffTime = "cutoffTime sampleNow inactiveUpdatedByDays",
      OF all2 shape2 kind(2) none]
  note t3 = last_comment_edit_decides [where parseDate = sampleDate
      and sevenDayCutoffTime = "cutoffTime sampleNow commentByDays"
      and fourteenDayCutoffTime = "cutoffTime sampleNow inactiveUpdatedByDays",
      OF all3 shape3 kind(3) none]
  from t1 new have r1: "isTimelineOutdated sampleFindLinkedIssue sampleDate
        (cutoffTime sampleNow commentByDays) (cutoffTime sampleNow inactiveUpdatedByDays)
        [?first, ?edited] ''42'' [''alice'']
       = Inr \<lparr>result = False, labels = statusUpdatedLabel\<rparr>"
    by simp
  from t2 new have r2: "isTimelineOutdated sampleFindLinkedIssue sampleDate
        (cutoffTime sampleNow commentByDays) (cutoffTime sampleNow inactiveUpdatedByDays)
        [?first, ?plain] ''42'' [''alice'']
       = Inr \<lparr>result = False, labels = statusUpdatedLabel\<rparr>"
    by simp
  from t3 mid have r3: "isTimelineOutdated sampleFindLinkedIssue sampleDate
        (cutoffTime sampleNow commentByDays) (cutoffTime sampleNow inactiveUpdatedByDays)
        [?stale] ''42'' [''alice'']
       \<noteq> Inr \<lparr>result = False, labels = statusUpdatedLabel\<rparr>"
    by simp
  let ?given = "\<lparr>event = ''assigned'', actor = Some ''bob'', assignee = Some ''alice'',
      source = None, updated_at = Some ''2021-06-13T00:00:00Z'',
      created_at = Some ''2021-05-26T00:00:00Z''\<rparr>"
  let ?assigned = "assignedAt ''bob'' ''alice'' ''2021-05-26T00:00:00Z''"
  have given: "wellFormed sampleFindLinkedIssue ?given
      \<and> \<not> linkedByAssignee sampleFindLinkedIssue ''42'' [''alice''] ?given"
    "wellFormed sampleFindLinkedIssue ?assigned
      \<and> \<not> linkedByAssignee sampleFindLinkedIssue ''42'' [''alice''] ?assigned"
    by (simp_all add: wellFormed_def linkedByAssignee_def)
  from t1 given(1) have b1: "loopBody sampleFindLinkedIssue ''42'' [''alice''] True ?given
      None None = Continues (Some ''2021-06-13T00:00:00Z'') None"
    by (simp add: assignedToAssignee_def commentByAssignee_def)
  from t1 given(2) have b2: "loopBody sampleFindLinkedIssue ''42'' [''alice''] True ?assigned
      None None = Continues (Some ''2021-05-26T00:00:00Z'') None"
    by (simp add: assignedToAssignee_def commentByAssignee_def)
  from b1 b2 new mid old r1 r2 r3 show ?thesis by (simp add: statusUpdatedLabel_def)
qed

end
